theory Spec2Isabelle
  imports Complex_Main
begin

section \<open>Python values\<close>

text \<open>
  The listeners receive JSON packets and hand the \<open>values\<close> field to the quaternion
  decoder. A Python float (an IEEE double, also inside a numpy array) is modelled as
  \<open>Fin r\<close> for a real \<open>r\<close>, where \<open>Fin 0\<close> is the positive zero, the negative zero
  \<open>NZero\<close>, the two infinities or NaN. An operation on finite operands is computed
  exactly and overflows to an infinity when the exact result reaches the overflow
  threshold of the double format; a zero result carries the sign that IEEE arithmetic
  gives it. Rounding to 53 bits, and underflow with it, is the one abstraction. JSON
  objects nested inside a packet field are not modelled.
\<close>

datatype pyfloat = Fin real | NZero | PInf | NInf | NaN

datatype pyval =
    JNull
  | JBool bool
  | JInt int
  | JFloat pyfloat
  | JStr string
  | JList "pyval list"

datatype error = ValueError | TypeError | IndexError | OverflowError | AttributeError

definition ebind :: "error + 'a \<Rightarrow> ('a \<Rightarrow> error + 'b) \<Rightarrow> error + 'b" where
  "ebind m f = (case m of Inl e \<Rightarrow> Inl e | Inr a \<Rightarrow> f a)"

subsection \<open>Float arithmetic\<close>

text \<open>Finite floats, their value and the sign bit.\<close>

fun ffinite :: "pyfloat \<Rightarrow> bool" where
  "ffinite (Fin r) = True"
| "ffinite NZero = True"
| "ffinite _ = False"

fun fval :: "pyfloat \<Rightarrow> real" where
  "fval (Fin r) = r"
| "fval _ = 0"

fun fsgn :: "pyfloat \<Rightarrow> bool" where
  "fsgn (Fin r) = (r < 0)"
| "fsgn NZero = True"
| "fsgn NInf = True"
| "fsgn _ = False"

text \<open>
  A nonzero exact result whose magnitude reaches \<open>2^1024 - 2^970\<close> (half an ulp above the
  largest double) becomes an infinity.
\<close>

definition overflow_bound :: real where
  "overflow_bound = 2 ^ 1024 - 2 ^ 970"

definition fresult :: "real \<Rightarrow> pyfloat" where
  "fresult r =
     (if overflow_bound \<le> r then PInf else if r \<le> - overflow_bound then NInf else Fin r)"

fun fneg :: "pyfloat \<Rightarrow> pyfloat" where
  "fneg (Fin r) = (if r = 0 then NZero else Fin (- r))"
| "fneg NZero = Fin 0"
| "fneg PInf = NInf"
| "fneg NInf = PInf"
| "fneg NaN = NaN"

text \<open>
  \<open>a + b\<close>: a zero sum is the negative zero only when both operands are; opposite
  infinities give NaN.
\<close>

definition fadd :: "pyfloat \<Rightarrow> pyfloat \<Rightarrow> pyfloat" where
  "fadd a b =
     (if a = NaN \<or> b = NaN then NaN
      else if ffinite a \<and> ffinite b then
        (if fval a + fval b = 0 then (if a = NZero \<and> b = NZero then NZero else Fin 0)
         else fresult (fval a + fval b))
      else if ffinite a then b
      else if ffinite b then a
      else if a = b then a
      else NaN)"

definition fsub :: "pyfloat \<Rightarrow> pyfloat \<Rightarrow> pyfloat" where
  "fsub a b = fadd a (fneg b)"

text \<open>
  \<open>a * b\<close>: the sign of the result is the exclusive or of the signs; an infinity times
  a zero is NaN.
\<close>

definition fmul :: "pyfloat \<Rightarrow> pyfloat \<Rightarrow> pyfloat" where
  "fmul a b =
     (if a = NaN \<or> b = NaN then NaN
      else if ffinite a \<and> ffinite b then
        (if fval a * fval b = 0 then (if fsgn a = fsgn b then Fin 0 else NZero)
         else fresult (fval a * fval b))
      else if (ffinite a \<and> fval a = 0) \<or> (ffinite b \<and> fval b = 0) then NaN
      else if fsgn a = fsgn b then PInf
      else NInf)"

text \<open>Comparison \<open>a < b\<close>: false whenever an operand is NaN; the two zeros are equal.\<close>

definition flt :: "pyfloat \<Rightarrow> pyfloat \<Rightarrow> bool" where
  "flt a b =
     (if a = NaN \<or> b = NaN then False
      else if a = NInf then b \<noteq> NInf
      else if b = PInf then a \<noteq> PInf
      else if a = PInf \<or> b = NInf then False
      else fval a < fval b)"

definition fgt :: "pyfloat \<Rightarrow> pyfloat \<Rightarrow> bool" where
  "fgt a b = flt b a"

text \<open>
  The builtins \<open>min(a, b)\<close> and \<open>max(a, b)\<close> keep the first argument unless the second
  compares strictly smaller (larger).
\<close>

definition py_min :: "pyfloat \<Rightarrow> pyfloat \<Rightarrow> pyfloat" where
  "py_min a b = (if flt b a then b else a)"

definition py_max :: "pyfloat \<Rightarrow> pyfloat \<Rightarrow> pyfloat" where
  "py_max a b = (if fgt b a then b else a)"

subsection \<open>The math module\<close>

text \<open>
  The two-argument arctangent of mathematics: the angle of the point \<open>(x, y)\<close> of the
  real plane, in \<open>(-pi, pi]\<close>. The reals have one zero; the library function
  \<open>math.atan2\<close> is \<open>py_atan2\<close> below, which decides the cases of a zero \<open>y\<close> by the
  sign bits and uses this angle for a nonzero finite \<open>y\<close> only.
\<close>

definition atan2_real :: "real \<Rightarrow> real \<Rightarrow> real" where
  "atan2_real y x =
     (if 0 < x then arctan (y / x)
      else if x < 0 then (if 0 \<le> y then arctan (y / x) + pi else arctan (y / x) - pi)
      else if 0 < y then pi / 2
      else if y < 0 then - (pi / 2)
      else 0)"

text \<open>
  \<open>math.atan2(y, x)\<close> with the special cases of the C library: a zero \<open>y\<close> gives a zero
  of the same sign when the sign bit of \<open>x\<close> is clear and \<open>pi\<close> with the sign of \<open>y\<close>
  when it is set (so \<open>atan2(-0.0, -1.0)\<close> is \<open>-pi\<close>).
\<close>

definition py_atan2 :: "pyfloat \<Rightarrow> pyfloat \<Rightarrow> pyfloat" where
  "py_atan2 y x =
     (if y = NaN \<or> x = NaN then NaN
      else if ffinite y \<and> fval y = 0 then
        (if fsgn x then (if fsgn y then Fin (- pi) else Fin pi) else y)
      else if ffinite y then
        (if ffinite x then Fin (atan2_real (fval y) (fval x))
         else if x = PInf then (if fsgn y then NZero else Fin 0)
         else (if fsgn y then Fin (- pi) else Fin pi))
      else if ffinite x then (if fsgn y then Fin (- (pi / 2)) else Fin (pi / 2))
      else if x = PInf then (if fsgn y then Fin (- (pi / 4)) else Fin (pi / 4))
      else (if fsgn y then Fin (- (3 * pi / 4)) else Fin (3 * pi / 4)))"

text \<open>
  \<open>math.asin\<close> raises ValueError (math domain error) outside \<open>[-1, 1]\<close>; NaN passes and
  a zero keeps its sign.
\<close>

fun py_asin :: "pyfloat \<Rightarrow> error + pyfloat" where
  "py_asin (Fin t) = (if - 1 \<le> t \<and> t \<le> 1 then Inr (Fin (arcsin t)) else Inl ValueError)"
| "py_asin NZero = Inr NZero"
| "py_asin NaN = Inr NaN"
| "py_asin PInf = Inl ValueError"
| "py_asin NInf = Inl ValueError"

text \<open>\<open>math.degrees(x)\<close> is the product \<open>x * (180 / pi)\<close>.\<close>

definition py_degrees :: "pyfloat \<Rightarrow> pyfloat" where
  "py_degrees f = fmul f (Fin (180 / pi))"

subsection \<open>Builtins on values\<close>

text \<open>
  \<open>float(v)\<close>. Parsing a string is Python's own; it is the parameter \<open>pf\<close>
  (\<open>None\<close> is the ValueError of an unparsable string). An integer too large for a
  double raises OverflowError.
\<close>

definition float_overflows :: "int \<Rightarrow> bool" where
  "float_overflows n = (2 ^ 1024 - 2 ^ 970 \<le> \<bar>n\<bar>)"

fun py_float :: "(string \<Rightarrow> pyfloat option) \<Rightarrow> pyval \<Rightarrow> error + pyfloat" where
  "py_float pf JNull = Inl TypeError"
| "py_float pf (JBool b) = Inr (Fin (if b then 1 else 0))"
| "py_float pf (JInt n) = (if float_overflows n then Inl OverflowError else Inr (Fin (of_int n)))"
| "py_float pf (JFloat f) = Inr f"
| "py_float pf (JStr s) = (case pf s of None \<Rightarrow> Inl ValueError | Some f \<Rightarrow> Inr f)"
| "py_float pf (JList xs) = Inl TypeError"

text \<open>
  \<open>int(v)\<close>. A float is truncated towards zero; parsing a string is the parameter
  \<open>pint\<close>.
\<close>

fun py_int :: "(string \<Rightarrow> int option) \<Rightarrow> pyval \<Rightarrow> error + int" where
  "py_int pint JNull = Inl TypeError"
| "py_int pint (JBool b) = Inr (if b then 1 else 0)"
| "py_int pint (JInt n) = Inr n"
| "py_int pint (JFloat (Fin r)) = Inr (if 0 \<le> r then \<lfloor>r\<rfloor> else \<lceil>r\<rceil>)"
| "py_int pint (JFloat NZero) = Inr 0"
| "py_int pint (JFloat PInf) = Inl OverflowError"
| "py_int pint (JFloat NInf) = Inl OverflowError"
| "py_int pint (JFloat NaN) = Inl ValueError"
| "py_int pint (JStr s) = (case pint s of None \<Rightarrow> Inl ValueError | Some n \<Rightarrow> Inr n)"
| "py_int pint (JList xs) = Inl TypeError"

fun py_len :: "pyval \<Rightarrow> error + nat" where
  "py_len (JStr s) = Inr (length s)"
| "py_len (JList xs) = Inr (length xs)"
| "py_len _ = Inl TypeError"

text \<open>\<open>v[i]\<close> for a non-negative constant index.\<close>

fun py_getitem :: "pyval \<Rightarrow> nat \<Rightarrow> error + pyval" where
  "py_getitem (JList xs) i = (if i < length xs then Inr (xs ! i) else Inl IndexError)"
| "py_getitem (JStr s) i = (if i < length s then Inr (JStr [s ! i]) else Inl IndexError)"
| "py_getitem _ i = Inl TypeError"

text \<open>\<open>v[:n]\<close>, and the items a \<open>for\<close> loop or \<open>map\<close> draws from a value.\<close>

fun py_slice :: "nat \<Rightarrow> pyval \<Rightarrow> error + pyval" where
  "py_slice n (JList xs) = Inr (JList (take n xs))"
| "py_slice n (JStr s) = Inr (JStr (take n s))"
| "py_slice n _ = Inl TypeError"

fun py_iter :: "pyval \<Rightarrow> error + pyval list" where
  "py_iter (JList xs) = Inr xs"
| "py_iter (JStr s) = Inr (map (\<lambda>c. JStr [c]) s)"
| "py_iter _ = Inl TypeError"

section \<open>The quaternion decoder\<close>

text \<open>
  What \<open>get_rpy_from_quaternion\<close> returns is a Python tuple: a list of components, each
  \<open>None\<close>, a float or the 4-element numpy array of the corrected quaternion.
\<close>

type_synonym quat = "pyfloat \<times> pyfloat \<times> pyfloat \<times> pyfloat"

datatype rv = RNone | RFloat pyfloat | RQuat quat

fun qx :: "quat \<Rightarrow> pyfloat" where "qx (x, y, z, w) = x"
fun qy :: "quat \<Rightarrow> pyfloat" where "qy (x, y, z, w) = y"
fun qz :: "quat \<Rightarrow> pyfloat" where "qz (x, y, z, w) = z"
fun qw :: "quat \<Rightarrow> pyfloat" where "qw (x, y, z, w) = w"

subsection \<open>Orientation\_Fast.py\<close>

text \<open>\<open>float(vals[0]), float(vals[1]), float(vals[2]), float(vals[3])\<close>, left to right.\<close>

definition coerce_fast :: "(string \<Rightarrow> pyfloat option) \<Rightarrow> pyval \<Rightarrow> error + quat" where
  "coerce_fast pf vals =
     ebind (py_getitem vals 0) (\<lambda>v0. ebind (py_float pf v0) (\<lambda>x.
     ebind (py_getitem vals 1) (\<lambda>v1. ebind (py_float pf v1) (\<lambda>y.
     ebind (py_getitem vals 2) (\<lambda>v2. ebind (py_float pf v2) (\<lambda>z.
     ebind (py_getitem vals 3) (\<lambda>v3. ebind (py_float pf v3) (\<lambda>w.
     Inr (x, y, z, w)))))))))"

text \<open>\<open>except (ValueError, TypeError, IndexError)\<close>\<close>

definition caught_fast :: "error \<Rightarrow> bool" where
  "caught_fast e = (e = ValueError \<or> e = TypeError \<or> e = IndexError)"

text \<open>Lines 28 to 50: the frame fix and the Euler angles.\<close>

definition rpy_fast :: "quat \<Rightarrow> error + rv list" where
  "rpy_fast q =
     (let q_fixed = (qx q, fneg (qy q), fneg (qz q), qw q);
          q_conj = (fneg (qx q_fixed), fneg (qy q_fixed), fneg (qz q_fixed), qw q_fixed);
          x = qx q_conj; y = qy q_conj; z = qz q_conj; w = qw q_conj;
          t0 = fmul (Fin 2) (fadd (fmul w x) (fmul y z));
          t1 = fsub (Fin 1) (fmul (Fin 2) (fadd (fmul x x) (fmul y y)));
          roll_x = py_atan2 t0 t1;
          t2 = fmul (Fin 2) (fsub (fmul w y) (fmul z x));
          t2_hi = (if fgt t2 (Fin 1) then Fin 1 else t2);
          t2_lo = (if flt t2_hi (Fin (- 1)) then Fin (- 1) else t2_hi)
      in ebind (py_asin t2_lo) (\<lambda>pitch_y.
           let t3 = fmul (Fin 2) (fadd (fmul w z) (fmul x y));
               t4 = fsub (Fin 1) (fmul (Fin 2) (fadd (fmul y y) (fmul z z)));
               yaw_z = py_atan2 t3 t4
           in Inr [RFloat (py_degrees roll_x), RFloat (py_degrees pitch_y),
                   RFloat (py_degrees yaw_z), RQuat q_conj]))"

definition get_rpy_fast :: "(string \<Rightarrow> pyfloat option) \<Rightarrow> pyval \<Rightarrow> error + rv list" where
  "get_rpy_fast pf vals =
     ebind (py_len vals) (\<lambda>n.
       if n < 4 then Inr [RNone, RNone, RNone]
       else (case coerce_fast pf vals of
               Inl e \<Rightarrow> if caught_fast e then Inr [RNone, RNone, RNone] else Inl e
             | Inr q \<Rightarrow> rpy_fast q))"

subsection \<open>Sensor\_Dashboard.py\<close>

fun map_float :: "(string \<Rightarrow> pyfloat option) \<Rightarrow> pyval list \<Rightarrow> error + pyfloat list" where
  "map_float pf [] = Inr []"
| "map_float pf (v # vs) =
     ebind (py_float pf v) (\<lambda>f. ebind (map_float pf vs) (\<lambda>fs. Inr (f # fs)))"

text \<open>\<open>x, y, z, w = map(float, vals[:4])\<close>\<close>

definition coerce_dash :: "(string \<Rightarrow> pyfloat option) \<Rightarrow> pyval \<Rightarrow> error + quat" where
  "coerce_dash pf vals =
     ebind (py_slice 4 vals) (\<lambda>s. ebind (py_iter s) (\<lambda>items.
     ebind (map_float pf items) (\<lambda>fs.
       case fs of [x, y, z, w] \<Rightarrow> Inr (x, y, z, w) | _ \<Rightarrow> Inl ValueError)))"

text \<open>\<open>except (ValueError, TypeError)\<close>\<close>

definition caught_dash :: "error \<Rightarrow> bool" where
  "caught_dash e = (e = ValueError \<or> e = TypeError)"

definition rpy_dash :: "quat \<Rightarrow> error + rv list" where
  "rpy_dash q =
     (let q_fixed = (qx q, fneg (qy q), fneg (qz q), qw q);
          q_conj = (fneg (qx q_fixed), fneg (qy q_fixed), fneg (qz q_fixed), qw q_fixed);
          x = qx q_conj; y = qy q_conj; z = qz q_conj; w = qw q_conj;
          t0 = fmul (Fin 2) (fadd (fmul w x) (fmul y z));
          t1 = fsub (Fin 1) (fmul (Fin 2) (fadd (fmul x x) (fmul y y)));
          roll = py_degrees (py_atan2 t0 t1);
          t2 = fmul (Fin 2) (fsub (fmul w y) (fmul z x));
          t2_cl = py_max (Fin (- 1)) (py_min (Fin 1) t2)
      in ebind (py_asin t2_cl) (\<lambda>a.
           let pitch = py_degrees a;
               t3 = fmul (Fin 2) (fadd (fmul w z) (fmul x y));
               t4 = fsub (Fin 1) (fmul (Fin 2) (fadd (fmul y y) (fmul z z)));
               yaw = py_degrees (py_atan2 t3 t4)
           in Inr [RFloat roll, RFloat pitch, RFloat yaw, RQuat q_conj]))"

definition get_rpy_dash :: "(string \<Rightarrow> pyfloat option) \<Rightarrow> pyval \<Rightarrow> error + rv list" where
  "get_rpy_dash pf vals =
     ebind (py_len vals) (\<lambda>n.
       if n < 4 then Inr [RNone, RNone, RNone, RNone]
       else (case coerce_dash pf vals of
               Inl e \<Rightarrow> if caught_dash e then Inr [RNone, RNone, RNone, RNone] else Inl e
             | Inr q \<Rightarrow> rpy_dash q))"

subsection \<open>rpy\_output\_text.py\<close>

text \<open>The text listener's decoder: no frame fix, three components.\<close>

definition rpy_text :: "quat \<Rightarrow> error + rv list" where
  "rpy_text q =
     (let x = qx q; y = qy q; z = qz q; w = qw q;
          t0 = fmul (Fin 2) (fadd (fmul w x) (fmul y z));
          t1 = fsub (Fin 1) (fmul (Fin 2) (fadd (fmul x x) (fmul y y)));
          roll_x = py_atan2 t0 t1;
          t2 = fmul (Fin 2) (fsub (fmul w y) (fmul z x));
          t2_hi = (if fgt t2 (Fin 1) then Fin 1 else t2);
          t2_lo = (if flt t2_hi (Fin (- 1)) then Fin (- 1) else t2_hi)
      in ebind (py_asin t2_lo) (\<lambda>pitch_y.
           let t3 = fmul (Fin 2) (fadd (fmul w z) (fmul x y));
               t4 = fsub (Fin 1) (fmul (Fin 2) (fadd (fmul y y) (fmul z z)));
               yaw_z = py_atan2 t3 t4
           in Inr [RFloat (py_degrees roll_x), RFloat (py_degrees pitch_y),
                   RFloat (py_degrees yaw_z)]))"

definition get_rpy_text :: "(string \<Rightarrow> pyfloat option) \<Rightarrow> pyval \<Rightarrow> error + rv list" where
  "get_rpy_text pf vals =
     ebind (py_len vals) (\<lambda>n.
       if n < 4 then Inr [RNone, RNone, RNone]
       else (case coerce_fast pf vals of
               Inl e \<Rightarrow> if caught_fast e then Inr [RNone, RNone, RNone] else Inl e
             | Inr q \<Rightarrow> rpy_text q))"

subsection \<open>The rotation matrix\<close>

definition rotmat_from_quat :: "pyfloat \<Rightarrow> pyfloat \<Rightarrow> pyfloat \<Rightarrow> pyfloat \<Rightarrow> pyfloat list list" where
  "rotmat_from_quat x y z w =
     [[fsub (Fin 1) (fmul (Fin 2) (fadd (fmul y y) (fmul z z))),
       fmul (Fin 2) (fsub (fmul x y) (fmul z w)),
       fmul (Fin 2) (fadd (fmul x z) (fmul y w))],
      [fmul (Fin 2) (fadd (fmul x y) (fmul z w)),
       fsub (Fin 1) (fmul (Fin 2) (fadd (fmul x x) (fmul z z))),
       fmul (Fin 2) (fsub (fmul y z) (fmul x w))],
      [fmul (Fin 2) (fsub (fmul x z) (fmul y w)),
       fmul (Fin 2) (fadd (fmul y z) (fmul x w)),
       fsub (Fin 1) (fmul (Fin 2) (fadd (fmul x x) (fmul y y)))]]"

section \<open>The listeners\<close>

text \<open>
  A packet is one JSON object; a field is \<open>None\<close> when the key is missing.
  \<open>obj.get(k)\<close> is then Python's \<open>None\<close>, \<open>obj.get(k, d)\<close> the default.
\<close>

record packet =
  p_type :: "pyval option"
  p_name :: "pyval option"
  p_values :: "pyval option"
  p_ts_ns :: "pyval option"
  p_vendor :: "pyval option"
  p_version :: "pyval option"
  p_acc :: "pyval option"

definition py_get :: "pyval option \<Rightarrow> pyval" where
  "py_get f = (case f of None \<Rightarrow> JNull | Some v \<Rightarrow> v)"

definition py_get_default :: "pyval option \<Rightarrow> pyval \<Rightarrow> pyval" where
  "py_get_default f d = (case f of None \<Rightarrow> d | Some v \<Rightarrow> v)"

text \<open>\<open>v == n\<close> for an integer literal, and \<open>v in [n, ...]\<close>.\<close>

fun py_eq_int :: "pyval \<Rightarrow> int \<Rightarrow> bool" where
  "py_eq_int (JInt k) n = (k = n)"
| "py_eq_int (JFloat (Fin r)) n = (r = of_int n)"
| "py_eq_int (JFloat NZero) n = (n = 0)"
| "py_eq_int (JBool b) n = ((if b then 1 else 0) = n)"
| "py_eq_int _ n = False"

definition py_in_ints :: "pyval \<Rightarrow> int list \<Rightarrow> bool" where
  "py_in_ints v ns = list_ex (py_eq_int v) ns"

text \<open>\<open>str.lower\<close> on ASCII letters, and the substring test \<open>sub in s\<close>.\<close>

definition lower_char :: "char \<Rightarrow> char" where
  "lower_char c =
     (case map_of (zip ''ABCDEFGHIJKLMNOPQRSTUVWXYZ'' ''abcdefghijklmnopqrstuvwxyz'') c of
        None \<Rightarrow> c
      | Some l \<Rightarrow> l)"

definition py_lower :: "pyval \<Rightarrow> error + string" where
  "py_lower v = (case v of JStr s \<Rightarrow> Inr (map lower_char s) | _ \<Rightarrow> Inl AttributeError)"

fun py_contains :: "string \<Rightarrow> string \<Rightarrow> bool" where
  "py_contains sub [] = (sub = [])"
| "py_contains sub (c # cs) = (take (length sub) (c # cs) = sub \<or> py_contains sub cs)"

text \<open>
  A cell handed to \<open>csv.writer.writerow\<close>: a value, a decoder output, an angle formatted
  with \<open>.2f\<close>, or the \<open>";".join(str(v) for v in vals)\<close> of the items of \<open>vals\<close>.
\<close>

datatype cell = CVal pyval | CRet rv | CFmt2 rv | CJoin "pyval list"

text \<open>The targets of \<open>a, b, c, d = t\<close> and \<open>a, b, c = t\<close>: a wrong length is a ValueError.\<close>

definition unpack4 :: "rv list \<Rightarrow> error + (rv \<times> rv \<times> rv \<times> rv)" where
  "unpack4 t = (case t of [a, b, c, d] \<Rightarrow> Inr (a, b, c, d) | _ \<Rightarrow> Inl ValueError)"

definition unpack3 :: "rv list \<Rightarrow> error + (rv \<times> rv \<times> rv)" where
  "unpack3 t = (case t of [a, b, c] \<Rightarrow> Inr (a, b, c) | _ \<Rightarrow> Inl ValueError)"

subsection \<open>Orientation\_Fast.py: \<open>SensorVisualizer.update\<close>, one parsed line\<close>

record fast_state =
  q_latest :: rv
  have_quat :: bool
  angle_label :: "(rv \<times> rv \<times> rv) option"
  writer :: bool
  csv_rows :: "cell list list"

text \<open>Lines 193 to 202; \<open>loads\<close> is \<open>json.loads\<close>, \<open>None\<close> its JSONDecodeError.\<close>

definition fast_vals :: "(string \<Rightarrow> pyval option) \<Rightarrow> packet \<Rightarrow> pyval" where
  "fast_vals loads obj =
     (let vals_raw = py_get_default (p_values obj) (JList []) in
      case vals_raw of
        JStr s \<Rightarrow> (case loads s of None \<Rightarrow> JList [vals_raw] | Some v \<Rightarrow> v)
      | JList xs \<Rightarrow> vals_raw
      | _ \<Rightarrow> JList [])"

text \<open>Lines 204 to 227; \<open>host_ts\<close> is the clock's reading.\<close>

definition fast_packet ::
  "(string \<Rightarrow> pyfloat option) \<Rightarrow> (string \<Rightarrow> pyval option) \<Rightarrow> string \<Rightarrow>
   packet \<Rightarrow> fast_state \<Rightarrow> error + fast_state" where
  "fast_packet pf loads host_ts obj st =
     (let vals = fast_vals loads obj;
          sensor_type = py_get (p_type obj);
          name = py_get_default (p_name obj) (JStr ''Unknown'')
      in if py_in_ints sensor_type [11, 15] then
           ebind (get_rpy_fast pf vals) (\<lambda>t. ebind (unpack4 t) (\<lambda>(roll, pitch, yaw, q).
             if roll \<noteq> RNone then
               (let st1 = st\<lparr>q_latest := q, have_quat := True,
                             angle_label := Some (roll, pitch, yaw)\<rparr>
                in if writer st then
                     ebind (py_iter vals) (\<lambda>items.
                       Inr (st1\<lparr>csv_rows := csv_rows st1 @
                         [[CVal (JStr host_ts), CVal (py_get (p_ts_ns obj)), CVal sensor_type,
                           CVal name, CFmt2 roll, CFmt2 pitch, CFmt2 yaw, CJoin items]]\<rparr>))
                   else Inr st1)
             else Inr st))
         else Inr st)"

subsection \<open>Sensor\_Dashboard.py: \<open>SensorDashboard.\_update\<close>, one parsed line\<close>

record dash_state =
  d_q_latest :: rv
  d_have_quat :: bool
  d_rpy :: "rv \<times> rv \<times> rv"
  d_lat :: pyval
  d_lon :: pyval
  d_gps_points :: "(pyval \<times> pyval) list"
  d_batt_v :: pyval
  d_batt_a :: pyval
  d_batt_w :: pyval
  d_batt_chg :: int
  d_writer :: bool
  d_csv_rows :: "cell list list"

text \<open>
  \<open>SensorDashboard.__init__\<close>, lines 134 to 144 and 182 to 190: with a CSV path the
  header row is written; the orientation state starts at the identity quaternion, the
  position and the battery readings at the integer 0, the GPS trail empty.
\<close>

definition dash_init :: "bool \<Rightarrow> dash_state" where
  "dash_init csv =
     \<lparr>d_q_latest = RQuat (Fin 0, Fin 0, Fin 0, Fin 1), d_have_quat = False,
      d_rpy = (RFloat (Fin 0), RFloat (Fin 0), RFloat (Fin 0)),
      d_lat = JInt 0, d_lon = JInt 0, d_gps_points = [],
      d_batt_v = JInt 0, d_batt_a = JInt 0, d_batt_w = JInt 0, d_batt_chg = 0,
      d_writer = csv,
      d_csv_rows =
        (if csv then
           [map (\<lambda>s. CVal (JStr s))
              [''host_ts'', ''type'', ''name'', ''roll'', ''pitch'', ''yaw'', ''lat'', ''lon'',
               ''alt'', ''speed'', ''acc'', ''batt_V'', ''batt_A'', ''batt_W'', ''charging'']]
         else [])\<rparr>"

text \<open>Lines 227 to 232: only a string is replaced.\<close>

definition dash_vals :: "(string \<Rightarrow> pyval option) \<Rightarrow> packet \<Rightarrow> pyval" where
  "dash_vals loads obj =
     (let vals = py_get_default (p_values obj) (JList []) in
      case vals of
        JStr s \<Rightarrow> (case loads s of None \<Rightarrow> JList [vals] | Some v \<Rightarrow> v)
      | _ \<Rightarrow> vals)"

text \<open>Line 235: \<open>stype in [11, 15, 20] or "rotation" in name.lower()\<close>.\<close>

definition dash_gate :: "pyval \<Rightarrow> pyval \<Rightarrow> error + bool" where
  "dash_gate stype name =
     (if py_in_ints stype [11, 15, 20] then Inr True
      else ebind (py_lower name) (\<lambda>l. Inr (py_contains ''rotation'' l)))"

text \<open>\<open>deque(maxlen=GPS_HISTORY)\<close>: \<open>append\<close> keeps the last \<open>maxlen\<close> items.\<close>

definition GPS_HISTORY :: nat where
  "GPS_HISTORY = 5000"

definition deque_append :: "nat \<Rightarrow> 'a list \<Rightarrow> 'a \<Rightarrow> 'a list" where
  "deque_append maxlen xs x = drop (length xs + 1 - maxlen) (xs @ [x])"

text \<open>
  Lines 243 to 247, the GPS branch. \<open>_update_map_marker\<close> hands the position and the
  trail to folium and reloads the Qt view; what these libraries raise is the parameter
  \<open>marker\<close> (\<open>None\<close> when the call returns), the map file itself is not part of the
  state.
\<close>

definition dash_gps ::
  "(pyval \<Rightarrow> pyval \<Rightarrow> (pyval \<times> pyval) list \<Rightarrow> error option) \<Rightarrow>
   pyval \<Rightarrow> dash_state \<Rightarrow> error + dash_state" where
  "dash_gps marker vals st =
     ebind (py_len vals) (\<lambda>n.
       if 2 \<le> n then
         ebind (py_getitem vals 0) (\<lambda>lat. ebind (py_getitem vals 1) (\<lambda>lon.
           let pts = deque_append GPS_HISTORY (d_gps_points st) (lat, lon) in
           case marker lat lon pts of
             Some e \<Rightarrow> Inl e
           | None \<Rightarrow> Inr (st\<lparr>d_lat := lat, d_lon := lon, d_gps_points := pts\<rparr>)))
       else Inr st)"

text \<open>Lines 250 to 254, the battery branch.\<close>

definition dash_battery ::
  "(string \<Rightarrow> int option) \<Rightarrow> pyval \<Rightarrow> dash_state \<Rightarrow> error + dash_state" where
  "dash_battery pint vals st =
     ebind (py_len vals) (\<lambda>n.
       if 3 \<le> n then
         ebind (py_slice 3 vals) (\<lambda>s. ebind (py_iter s) (\<lambda>items.
           case items of
             [v, a, w] \<Rightarrow>
               (let st1 = st\<lparr>d_batt_v := v, d_batt_a := a, d_batt_w := w\<rparr> in
                if 4 \<le> n then
                  ebind (py_getitem vals 3) (\<lambda>c. ebind (py_int pint c) (\<lambda>chg.
                    Inr (st1\<lparr>d_batt_chg := chg\<rparr>)))
                else Inr st1)
           | _ \<Rightarrow> Inl ValueError))
       else Inr st)"

text \<open>
  Lines 225 to 254, one parsed line. When the \<open>elif\<close> tests are reached the first test has
  evaluated \<open>name.lower()\<close> already, so the name is a string.
\<close>

definition dash_packet ::
  "(string \<Rightarrow> pyfloat option) \<Rightarrow> (string \<Rightarrow> int option) \<Rightarrow>
   (pyval \<Rightarrow> pyval \<Rightarrow> (pyval \<times> pyval) list \<Rightarrow> error option) \<Rightarrow>
   (string \<Rightarrow> pyval option) \<Rightarrow> packet \<Rightarrow> dash_state \<Rightarrow> error + dash_state" where
  "dash_packet pf pint marker loads obj st =
     (let name = py_get_default (p_name obj) (JStr []);
          stype = py_get (p_type obj);
          vals = dash_vals loads obj
      in ebind (dash_gate stype name) (\<lambda>g.
           if g then
             ebind (get_rpy_dash pf vals) (\<lambda>t. ebind (unpack4 t) (\<lambda>(roll, pitch, yaw, q).
               if roll \<noteq> RNone then
                 Inr (st\<lparr>d_q_latest := q, d_have_quat := True, d_rpy := (roll, pitch, yaw)\<rparr>)
               else Inr st))
           else
             ebind (py_lower name) (\<lambda>l.
               if py_contains ''gps'' l then dash_gps marker vals st
               else if py_contains ''battery'' l then dash_battery pint vals st
               else Inr st)))"

subsection \<open>rpy\_output\_text.py: \<open>main\<close>, one parsed line\<close>

record text_state =
  t_printed :: "(rv \<times> rv \<times> rv) list"
  t_writer :: bool
  t_csv_rows :: "cell list list"

text \<open>Lines 88 to 98.\<close>

definition text_vals :: "(string \<Rightarrow> pyval option) \<Rightarrow> packet \<Rightarrow> pyval" where
  "text_vals loads obj =
     (let vals_raw = py_get_default (p_values obj) (JList []) in
      case vals_raw of
        JStr s \<Rightarrow> (case loads s of None \<Rightarrow> JList [vals_raw] | Some v \<Rightarrow> v)
      | JList xs \<Rightarrow> vals_raw
      | _ \<Rightarrow> JList [])"

text \<open>\<open>roll if roll is not None else ""\<close>\<close>

definition angle_cell :: "rv \<Rightarrow> cell" where
  "angle_cell a = (if a \<noteq> RNone then CRet a else CVal (JStr []))"

text \<open>Lines 114 to 129.\<close>

definition text_row :: "string \<Rightarrow> packet \<Rightarrow> pyval list \<Rightarrow> rv \<times> rv \<times> rv \<Rightarrow> cell list" where
  "text_row host_ts obj items a =
     (case a of (roll, pitch, yaw) \<Rightarrow>
       [CVal (JStr host_ts), CVal (py_get (p_ts_ns obj)), CVal (py_get (p_type obj)),
        CVal (py_get_default (p_name obj) (JStr ''Unknown'')),
        CVal (py_get (p_vendor obj)), CVal (py_get (p_version obj)),
        CVal (py_get_default (p_acc obj) (JStr ''?'')), CJoin items,
        angle_cell roll, angle_cell pitch, angle_cell yaw])"

definition text_log ::
  "string \<Rightarrow> packet \<Rightarrow> pyval \<Rightarrow> rv \<times> rv \<times> rv \<Rightarrow> text_state \<Rightarrow> error + text_state" where
  "text_log host_ts obj vals a st =
     (if t_writer st then
        ebind (py_iter vals) (\<lambda>items.
          Inr (st\<lparr>t_csv_rows := t_csv_rows st @ [text_row host_ts obj items a]\<rparr>))
      else Inr st)"

text \<open>Lines 82 to 129.\<close>

definition text_packet ::
  "(string \<Rightarrow> pyfloat option) \<Rightarrow> (string \<Rightarrow> pyval option) \<Rightarrow> string \<Rightarrow>
   packet \<Rightarrow> text_state \<Rightarrow> error + text_state" where
  "text_packet pf loads host_ts obj st =
     (let vals = text_vals loads obj;
          sensor_type = py_get (p_type obj)
      in if py_in_ints sensor_type [11, 15] then
           ebind (get_rpy_text pf vals) (\<lambda>t. ebind (unpack3 t) (\<lambda>(roll, pitch, yaw).
             text_log host_ts obj vals (roll, pitch, yaw)
               (if roll \<noteq> RNone then st\<lparr>t_printed := t_printed st @ [(roll, pitch, yaw)]\<rparr>
                else st)))
         else text_log host_ts obj vals (RNone, RNone, RNone) st)"

section \<open>The specification's words\<close>

text \<open>
  The frame correction and the Euler formulas as the specification states them
  (section 4.1, items 3 to 5), to be compared with the decoders above: the two correction
  steps on floats, then the Euler formulas over the reals.
\<close>

definition q_fixed_spec :: "quat \<Rightarrow> quat" where
  "q_fixed_spec q = (qx q, fneg (qy q), fneg (qz q), qw q)"

definition q_corrected_spec :: "quat \<Rightarrow> quat" where
  "q_corrected_spec q =
     (fneg (qx (q_fixed_spec q)), fneg (qy (q_fixed_spec q)), fneg (qz (q_fixed_spec q)),
      qw (q_fixed_spec q))"

definition clamp_spec :: "real \<Rightarrow> real \<Rightarrow> real \<Rightarrow> real" where
  "clamp_spec t lo hi = max lo (min hi t)"

definition degrees_spec :: "real \<Rightarrow> real" where
  "degrees_spec r = r * 180 / pi"

definition roll_spec :: "real \<Rightarrow> real \<Rightarrow> real \<Rightarrow> real \<Rightarrow> real" where
  "roll_spec x y z w = degrees_spec (atan2_real (2 * (w * x + y * z)) (1 - 2 * (x\<^sup>2 + y\<^sup>2)))"

definition pitch_spec :: "real \<Rightarrow> real \<Rightarrow> real \<Rightarrow> real \<Rightarrow> real" where
  "pitch_spec x y z w = degrees_spec (arcsin (clamp_spec (2 * (w * y - z * x)) (- 1) 1))"

definition yaw_spec :: "real \<Rightarrow> real \<Rightarrow> real \<Rightarrow> real \<Rightarrow> real" where
  "yaw_spec x y z w = degrees_spec (atan2_real (2 * (w * z + x * y)) (1 - 2 * (y\<^sup>2 + z\<^sup>2)))"

text \<open>
  The same formulas on floats, with the library's \<open>atan2\<close>, \<open>asin\<close> and
  \<open>degrees\<close>: the pitch argument \<open>t = 2(wy - zx)\<close> of a quaternion before clamping,
  its clamp to \<open>[-1, 1]\<close> (of a number, the infinities included; NaN has no clamp and is
  left as it is), and the three angles.
\<close>

definition pitch_arg :: "quat \<Rightarrow> pyfloat" where
  "pitch_arg qc = fmul (Fin 2) (fsub (fmul (qw qc) (qy qc)) (fmul (qz qc) (qx qc)))"

definition clamp_float_spec :: "pyfloat \<Rightarrow> pyfloat" where
  "clamp_float_spec t =
     (if flt t (Fin (- 1)) then Fin (- 1) else if fgt t (Fin 1) then Fin 1 else t)"

definition roll_float_spec :: "quat \<Rightarrow> pyfloat" where
  "roll_float_spec qc =
     py_degrees (py_atan2
       (fmul (Fin 2) (fadd (fmul (qw qc) (qx qc)) (fmul (qy qc) (qz qc))))
       (fsub (Fin 1) (fmul (Fin 2) (fadd (fmul (qx qc) (qx qc)) (fmul (qy qc) (qy qc))))))"

definition pitch_float_spec :: "quat \<Rightarrow> error + pyfloat" where
  "pitch_float_spec qc =
     ebind (py_asin (clamp_float_spec (pitch_arg qc))) (\<lambda>a. Inr (py_degrees a))"

definition yaw_float_spec :: "quat \<Rightarrow> pyfloat" where
  "yaw_float_spec qc =
     py_degrees (py_atan2
       (fmul (Fin 2) (fadd (fmul (qw qc) (qz qc)) (fmul (qx qc) (qy qc))))
       (fsub (Fin 1) (fmul (Fin 2) (fadd (fmul (qy qc) (qy qc)) (fmul (qz qc) (qz qc))))))"

text \<open>
  A quaternion of finite components of magnitude at most \<open>2^500\<close>: no product or sum of
  the formulas overflows.
\<close>

definition quat_bound :: real where
  "quat_bound = 2 ^ 500"

definition small_quat :: "quat \<Rightarrow> bool" where
  "small_quat q =
     (ffinite (qx q) \<and> ffinite (qy q) \<and> ffinite (qz q) \<and> ffinite (qw q) \<and>
      \<bar>fval (qx q)\<bar> \<le> quat_bound \<and> \<bar>fval (qy q)\<bar> \<le> quat_bound \<and>
      \<bar>fval (qz q)\<bar> \<le> quat_bound \<and> \<bar>fval (qw q)\<bar> \<le> quat_bound)"

definition rotmat_spec :: "real \<Rightarrow> real \<Rightarrow> real \<Rightarrow> real \<Rightarrow> real list list" where
  "rotmat_spec x y z w =
     [[1 - 2 * (y\<^sup>2 + z\<^sup>2), 2 * (x * y - z * w), 2 * (x * z + y * w)],
      [2 * (x * y + z * w), 1 - 2 * (x\<^sup>2 + z\<^sup>2), 2 * (y * z - x * w)],
      [2 * (x * z - y * w), 2 * (y * z + x * w), 1 - 2 * (x\<^sup>2 + y\<^sup>2)]]"

definition dot :: "real list \<Rightarrow> real list \<Rightarrow> real" where
  "dot u v = sum_list (map2 (*) u v)"

text \<open>Three rows of unit length, mutually orthogonal.\<close>

definition orthonormal_rows :: "real list list \<Rightarrow> bool" where
  "orthonormal_rows m =
     (case m of
        [r0, r1, r2] \<Rightarrow>
          dot r0 r0 = 1 \<and> dot r1 r1 = 1 \<and> dot r2 r2 = 1 \<and>
          dot r0 r1 = 0 \<and> dot r0 r2 = 0 \<and> dot r1 r2 = 0
      | _ \<Rightarrow> False)"

text \<open>
  The sensor-type gate as the specification states it (section 6): the type is one of the
  two rotation-vector codes, or the declared name contains "rotation" in any letter case.
\<close>

definition gate_spec :: "pyval \<Rightarrow> pyval \<Rightarrow> bool" where
  "gate_spec stype name =
     (py_in_ints stype [11, 15] \<or>
      (case name of JStr s \<Rightarrow> py_contains ''rotation'' (map lower_char s) | _ \<Rightarrow> False))"

section \<open>Properties\<close>

subsection \<open>Evaluation rules\<close>

lemma ebind_Inl [simp]: "ebind (Inl e) f = Inl e"
  by (simp add: ebind_def)

lemma ebind_Inr [simp]: "ebind (Inr a) f = f a"
  by (simp add: ebind_def)

subsection \<open>Float arithmetic without overflow\<close>

lemma fneg_fneg: "fneg (fneg a) = a"
  by (cases a) auto

lemma fneg_exact: "ffinite a \<Longrightarrow> ffinite (fneg a) \<and> fval (fneg a) = - fval a"
  by (cases a) auto

lemma overflow_bound_gt: "2 ^ 1003 < overflow_bound"
  by (simp add: overflow_bound_def)

lemma fresult_exact: "\<bar>r\<bar> < overflow_bound \<Longrightarrow> fresult r = Fin r"
  by (auto simp: fresult_def)

lemma ffinite_not_special: "ffinite a \<Longrightarrow> a \<noteq> NaN \<and> a \<noteq> PInf \<and> a \<noteq> NInf"
  by (cases a) auto

lemma fmul_exact:
  assumes "ffinite a" and "ffinite b" and "\<bar>fval a * fval b\<bar> < overflow_bound"
  shows "ffinite (fmul a b) \<and> fval (fmul a b) = fval a * fval b"
  using assms fresult_exact[of "fval a * fval b"] ffinite_not_special[of a]
    ffinite_not_special[of b]
  by (simp add: fmul_def)

lemma fadd_exact:
  assumes "ffinite a" and "ffinite b" and "\<bar>fval a + fval b\<bar> < overflow_bound"
  shows "ffinite (fadd a b) \<and> fval (fadd a b) = fval a + fval b"
  using assms fresult_exact[of "fval a + fval b"] ffinite_not_special[of a]
    ffinite_not_special[of b]
  by (simp add: fadd_def)

lemma fsub_exact:
  assumes "ffinite a" and "ffinite b" and "\<bar>fval a - fval b\<bar> < overflow_bound"
  shows "ffinite (fsub a b) \<and> fval (fsub a b) = fval a - fval b"
  using assms fneg_exact[of b] fadd_exact[of a "fneg b"] by (simp add: fsub_def)

lemma fadd_Fin_not_NZero: "fadd (Fin r) b \<noteq> NZero"
  by (auto simp: fadd_def fresult_def)

lemma fsub_Fin_not_NZero: "fsub (Fin r) b \<noteq> NZero"
  by (simp add: fsub_def fadd_Fin_not_NZero)

lemma prod_bound:
  fixes u v :: real
  assumes "\<bar>u\<bar> \<le> quat_bound" and "\<bar>v\<bar> \<le> quat_bound"
  shows "\<bar>u * v\<bar> \<le> quat_bound * quat_bound"
proof -
  have "\<bar>u * v\<bar> = \<bar>u\<bar> * \<bar>v\<bar>" by (rule abs_mult)
  also have "\<dots> \<le> quat_bound * quat_bound" using assms by (intro mult_mono) auto
  finally show ?thesis .
qed

lemma quat_bound_ok: "1 + 4 * (quat_bound * quat_bound) < overflow_bound"
proof -
  have "quat_bound * quat_bound = 2 ^ 1000"
    unfolding quat_bound_def by (simp add: power_add[symmetric])
  then show ?thesis by (simp add: overflow_bound_def)
qed

lemma two_sum_exact:
  assumes "ffinite a" and "ffinite b" and "ffinite c" and "ffinite d"
    and "\<bar>fval a\<bar> \<le> quat_bound" and "\<bar>fval b\<bar> \<le> quat_bound"
    and "\<bar>fval c\<bar> \<le> quat_bound" and "\<bar>fval d\<bar> \<le> quat_bound"
  shows "ffinite (fmul (Fin 2) (fadd (fmul a b) (fmul c d))) \<and>
         fval (fmul (Fin 2) (fadd (fmul a b) (fmul c d))) =
           2 * (fval a * fval b + fval c * fval d)"
    and "ffinite (fmul (Fin 2) (fsub (fmul a b) (fmul c d))) \<and>
         fval (fmul (Fin 2) (fsub (fmul a b) (fmul c d))) =
           2 * (fval a * fval b - fval c * fval d)"
    and "ffinite (fsub (Fin 1) (fmul (Fin 2) (fadd (fmul a b) (fmul c d)))) \<and>
         fval (fsub (Fin 1) (fmul (Fin 2) (fadd (fmul a b) (fmul c d)))) =
           1 - 2 * (fval a * fval b + fval c * fval d)"
proof -
  define M where "M = quat_bound * quat_bound"
  have ab: "\<bar>fval a * fval b\<bar> \<le> M" unfolding M_def using assms by (intro prod_bound)
  have cd: "\<bar>fval c * fval d\<bar> \<le> M" unfolding M_def using assms by (intro prod_bound)
  have M: "1 + 4 * M < overflow_bound" unfolding M_def by (rule quat_bound_ok)
  have m1: "ffinite (fmul a b) \<and> fval (fmul a b) = fval a * fval b"
  proof (rule fmul_exact)
    show "\<bar>fval a * fval b\<bar> < overflow_bound" using ab M by linarith
  qed (use assms in simp_all)
  have m2: "ffinite (fmul c d) \<and> fval (fmul c d) = fval c * fval d"
  proof (rule fmul_exact)
    show "\<bar>fval c * fval d\<bar> < overflow_bound" using cd M by linarith
  qed (use assms in simp_all)
  have s: "ffinite (fadd (fmul a b) (fmul c d)) \<and>
      fval (fadd (fmul a b) (fmul c d)) = fval a * fval b + fval c * fval d"
  proof -
    have "\<bar>fval (fmul a b) + fval (fmul c d)\<bar> < overflow_bound"
      using m1 m2 ab cd M by linarith
    then show ?thesis using fadd_exact[of "fmul a b" "fmul c d"] m1 m2 by simp
  qed
  have d: "ffinite (fsub (fmul a b) (fmul c d)) \<and>
      fval (fsub (fmul a b) (fmul c d)) = fval a * fval b - fval c * fval d"
  proof -
    have "\<bar>fval (fmul a b) - fval (fmul c d)\<bar> < overflow_bound"
      using m1 m2 ab cd M by linarith
    then show ?thesis using fsub_exact[of "fmul a b" "fmul c d"] m1 m2 by simp
  qed
  show t: "ffinite (fmul (Fin 2) (fadd (fmul a b) (fmul c d))) \<and>
         fval (fmul (Fin 2) (fadd (fmul a b) (fmul c d))) =
           2 * (fval a * fval b + fval c * fval d)"
  proof -
    have "\<bar>fval (Fin 2) * fval (fadd (fmul a b) (fmul c d))\<bar> < overflow_bound"
      using s ab cd M by (simp; linarith?)
    then show ?thesis using fmul_exact[of "Fin 2" "fadd (fmul a b) (fmul c d)"] s by simp
  qed
  show "ffinite (fmul (Fin 2) (fsub (fmul a b) (fmul c d))) \<and>
         fval (fmul (Fin 2) (fsub (fmul a b) (fmul c d))) =
           2 * (fval a * fval b - fval c * fval d)"
  proof -
    have "\<bar>fval (Fin 2) * fval (fsub (fmul a b) (fmul c d))\<bar> < overflow_bound"
      using d ab cd M by (simp; linarith?)
    then show ?thesis using fmul_exact[of "Fin 2" "fsub (fmul a b) (fmul c d)"] d by simp
  qed
  show "ffinite (fsub (Fin 1) (fmul (Fin 2) (fadd (fmul a b) (fmul c d)))) \<and>
         fval (fsub (Fin 1) (fmul (Fin 2) (fadd (fmul a b) (fmul c d)))) =
           1 - 2 * (fval a * fval b + fval c * fval d)"
  proof -
    have "\<bar>fval (Fin 1) - fval (fmul (Fin 2) (fadd (fmul a b) (fmul c d)))\<bar> < overflow_bound"
      using t ab cd M by (simp; linarith?)
    then show ?thesis
      using fsub_exact[of "Fin 1" "fmul (Fin 2) (fadd (fmul a b) (fmul c d))"] t by simp
  qed
qed

subsection \<open>The math module on finite arguments\<close>

lemma atan2_real_range: "- pi < atan2_real y x \<and> atan2_real y x \<le> pi"
proof -
  have b: "- (pi / 2) < arctan (y / x)" "arctan (y / x) < pi / 2"
    by (rule arctan_lbound, rule arctan_ubound)
  show ?thesis
  proof (cases "0 < x")
    case True
    then show ?thesis using b pi_gt_zero by (simp add: atan2_real_def)
  next
    case False
    show ?thesis
    proof (cases "x < 0")
      case x: True
      show ?thesis
      proof (cases "0 \<le> y")
        case True
        then have "y / x \<le> 0" using x by (simp add: divide_nonneg_neg)
        then have "arctan (y / x) \<le> 0" by (simp add: arctan_le_zero_iff)
        then show ?thesis using x True b by (simp add: atan2_real_def)
      next
        case False
        then have "0 < y / x" using x by (simp add: divide_neg_neg)
        then have "0 < arctan (y / x)" by simp
        then show ?thesis using x False b by (simp add: atan2_real_def)
      qed
    next
      case False
      then have "atan2_real y x = pi / 2 \<or> atan2_real y x = - (pi / 2) \<or> atan2_real y x = 0"
        using \<open>\<not> 0 < x\<close> by (simp add: atan2_real_def)
      then show ?thesis using pi_gt_zero by linarith
    qed
  qed
qed

lemma py_atan2_finite:
  assumes "ffinite y" and "ffinite x" and "x \<noteq> NZero"
  shows "ffinite (py_atan2 y x) \<and>
         (fval (py_atan2 y x) = atan2_real (fval y) (fval x) \<or>
          y = NZero \<and> fval x < 0 \<and> py_atan2 y x = Fin (- pi) \<and> atan2_real (fval y) (fval x) = pi)"
  using assms by (cases y; cases x) (auto simp: py_atan2_def atan2_real_def)

lemma py_atan2_finite_range:
  assumes "ffinite y" and "ffinite x" and "x \<noteq> NZero"
  shows "- pi \<le> fval (py_atan2 y x) \<and> fval (py_atan2 y x) \<le> pi"
  using py_atan2_finite[OF assms] atan2_real_range[of "fval y" "fval x"] pi_gt_zero by auto

lemma py_degrees_exact:
  assumes "ffinite r" and "\<bar>fval r\<bar> \<le> pi"
  shows "ffinite (py_degrees r) \<and> fval (py_degrees r) = degrees_spec (fval r)"
proof -
  have "\<bar>fval r * (180 / pi)\<bar> = \<bar>fval r\<bar> * (180 / pi)"
    using pi_gt_zero by (simp add: abs_mult)
  also have "\<dots> \<le> pi * (180 / pi)" using assms(2) pi_gt_zero by (intro mult_right_mono) auto
  also have "\<dots> = 180" using pi_gt_zero by simp
  finally have "\<bar>fval r * (180 / pi)\<bar> \<le> 180" .
  moreover have "(180::real) < overflow_bound" by (simp add: overflow_bound_def)
  ultimately have "\<bar>fval (r) * fval (Fin (180 / pi))\<bar> < overflow_bound" by simp
  then show ?thesis
    using fmul_exact[of r "Fin (180 / pi)"] assms(1)
    by (simp add: py_degrees_def degrees_spec_def)
qed

lemma fast_clamp_exact:
  assumes "ffinite t"
  shows "ffinite (if flt (if fgt t (Fin 1) then Fin 1 else t) (Fin (- 1)) then Fin (- 1)
                  else (if fgt t (Fin 1) then Fin 1 else t)) \<and>
         fval (if flt (if fgt t (Fin 1) then Fin 1 else t) (Fin (- 1)) then Fin (- 1)
               else (if fgt t (Fin 1) then Fin 1 else t)) = clamp_spec (fval t) (- 1) 1"
  using assms by (cases t) (auto simp: flt_def fgt_def clamp_spec_def)

lemma py_asin_exact:
  assumes "ffinite c" and "- 1 \<le> fval c" and "fval c \<le> 1"
  shows "\<exists>a. py_asin c = Inr a \<and> ffinite a \<and> fval a = arcsin (fval c)"
  using assms by (cases c) auto

subsection \<open>Coercion and the structure of the decoders\<close>

lemma coerce_items:
  assumes "py_iter vals = Inr (a # b # c # d # rest)"
    and "py_float pf a = Inr x" and "py_float pf b = Inr y"
    and "py_float pf c = Inr z" and "py_float pf d = Inr w"
  shows "py_len vals = Inr (4 + length rest)"
    and "coerce_fast pf vals = Inr (x, y, z, w)"
    and "coerce_dash pf vals = Inr (x, y, z, w)"
proof -
  show "py_len vals = Inr (4 + length rest)"
    using assms(1) by (cases vals) auto
  show "coerce_fast pf vals = Inr (x, y, z, w)"
    using assms by (cases vals) (auto simp: coerce_fast_def)
  show "coerce_dash pf vals = Inr (x, y, z, w)"
    using assms by (cases vals) (auto simp: coerce_dash_def)
qed

lemma get_rpy_items:
  assumes "py_iter vals = Inr (a # b # c # d # rest)"
    and "py_float pf a = Inr x" and "py_float pf b = Inr y"
    and "py_float pf c = Inr z" and "py_float pf d = Inr w"
  shows "get_rpy_fast pf vals = rpy_fast (x, y, z, w)"
    and "get_rpy_dash pf vals = rpy_dash (x, y, z, w)"
    and "get_rpy_text pf vals = rpy_text (x, y, z, w)"
  using coerce_items[OF assms]
  by (simp_all add: get_rpy_fast_def get_rpy_dash_def get_rpy_text_def)

lemma q_corrected_spec_eq: "q_corrected_spec (x, y, z, w) = (fneg x, y, z, w)"
  by (simp add: q_corrected_spec_def q_fixed_spec_def fneg_fneg)

lemma rpy_fast_via_text:
  "rpy_fast q =
     ebind (rpy_text (q_corrected_spec q)) (\<lambda>a. Inr (a @ [RQuat (q_corrected_spec q)]))"
  by (cases q) (simp add: rpy_fast_def rpy_text_def q_corrected_spec_def q_fixed_spec_def
      Let_def ebind_def split: sum.splits)

subsection \<open>The two clamps\<close>

lemma fast_clamp_spec:
  "(if flt (if fgt t (Fin 1) then Fin 1 else t) (Fin (- 1)) then Fin (- 1)
    else (if fgt t (Fin 1) then Fin 1 else t)) = clamp_float_spec t"
  by (cases t) (auto simp: clamp_float_spec_def flt_def fgt_def)

lemma dash_clamp_spec:
  "t \<noteq> NaN \<Longrightarrow> py_max (Fin (- 1)) (py_min (Fin 1) t) = clamp_float_spec t"
  by (cases t) (auto simp: clamp_float_spec_def flt_def fgt_def py_min_def py_max_def)

lemma dash_clamp_NaN: "py_max (Fin (- 1)) (py_min (Fin 1) NaN) = Fin 1"
  by (simp add: flt_def fgt_def py_min_def py_max_def)

lemma clamp_float_spec_NaN: "clamp_float_spec NaN = NaN"
  by (simp add: clamp_float_spec_def flt_def fgt_def)

lemma clamp_float_spec_hi: "fgt t (Fin 1) \<Longrightarrow> clamp_float_spec t = Fin 1"
  by (cases t) (auto simp: clamp_float_spec_def flt_def fgt_def)

lemma clamp_float_spec_lo: "flt t (Fin (- 1)) \<Longrightarrow> clamp_float_spec t = Fin (- 1)"
  by (cases t) (auto simp: clamp_float_spec_def flt_def fgt_def)

lemma asin_clamp_total: "\<exists>a. py_asin (clamp_float_spec t) = Inr a"
  by (cases t) (auto simp: clamp_float_spec_def flt_def fgt_def)

lemma clamp_float_spec_exact:
  assumes "ffinite t"
  shows "ffinite (clamp_float_spec t) \<and> fval (clamp_float_spec t) = clamp_spec (fval t) (- 1) 1"
  using assms by (cases t) (auto simp: clamp_float_spec_def flt_def fgt_def clamp_spec_def)

lemma degrees_half_pi:
  "py_degrees (Fin (pi / 2)) = Fin 90" "py_degrees (Fin (- (pi / 2))) = Fin (- 90)"
  "py_degrees (Fin pi) = Fin 180" "py_degrees (Fin (- pi)) = Fin (- 180)"
  "py_degrees (Fin 0) = Fin 0" "py_degrees NZero = NZero" "py_degrees NaN = NaN"
  using pi_gt_zero by (simp_all add: py_degrees_def fmul_def fresult_def overflow_bound_def)

subsection \<open>The bodies of the decoders\<close>

lemma rpy_text_float:
  "rpy_text q =
     ebind (pitch_float_spec q) (\<lambda>p.
       Inr [RFloat (roll_float_spec q), RFloat p, RFloat (yaw_float_spec q)])"
proof -
  obtain a where a: "py_asin (clamp_float_spec (pitch_arg q)) = Inr a"
    using asin_clamp_total by blast
  show ?thesis
    unfolding rpy_text_def Let_def fast_clamp_spec
    using a by (simp add: pitch_float_spec_def roll_float_spec_def yaw_float_spec_def pitch_arg_def)
qed

lemma pitch_float_spec_total: "\<exists>p. pitch_float_spec q = Inr p"
  using asin_clamp_total[of "pitch_arg q"] by (auto simp: pitch_float_spec_def)


lemma rpy_fast_float:
  "rpy_fast q =
     ebind (pitch_float_spec (q_corrected_spec q)) (\<lambda>p.
       Inr [RFloat (roll_float_spec (q_corrected_spec q)), RFloat p,
            RFloat (yaw_float_spec (q_corrected_spec q)), RQuat (q_corrected_spec q)])"
  using pitch_float_spec_total[of "q_corrected_spec q"]
  by (auto simp: rpy_fast_via_text rpy_text_float)

lemma rpy_dash_float:
  "rpy_dash q =
     ebind (if pitch_arg (q_corrected_spec q) = NaN then Inr (Fin 90)
            else pitch_float_spec (q_corrected_spec q)) (\<lambda>p.
       Inr [RFloat (roll_float_spec (q_corrected_spec q)), RFloat p,
            RFloat (yaw_float_spec (q_corrected_spec q)), RQuat (q_corrected_spec q)])"
proof -
  obtain x y z w where q: "q = (x, y, z, w)" by (cases q)
  let ?t = "fmul (Fin 2) (fsub (fmul w y) (fmul z (fneg x)))"
  have t: "pitch_arg (q_corrected_spec q) = ?t"
    by (simp add: q pitch_arg_def q_corrected_spec_eq)
  show ?thesis
  proof (cases "?t = NaN")
    case True
    then show ?thesis
      unfolding q rpy_dash_def Let_def
      by (simp add: fneg_fneg dash_clamp_NaN degrees_half_pi q_corrected_spec_eq
          roll_float_spec_def yaw_float_spec_def pitch_arg_def)
  next
    case False
    obtain a where a: "py_asin (clamp_float_spec ?t) = Inr a"
      using asin_clamp_total by blast
    show ?thesis
      unfolding q rpy_dash_def Let_def
      using False a
      by (simp add: fneg_fneg dash_clamp_spec q_corrected_spec_eq
          roll_float_spec_def yaw_float_spec_def pitch_float_spec_def pitch_arg_def)
  qed
qed

lemma rpy_fast_total:
  "\<exists>r p y. rpy_fast q = Inr [RFloat r, RFloat p, RFloat y, RQuat (q_corrected_spec q)]"
  using pitch_float_spec_total[of "q_corrected_spec q"] by (auto simp: rpy_fast_float)

lemma rpy_dash_total:
  "\<exists>r p y. rpy_dash q = Inr [RFloat r, RFloat p, RFloat y, RQuat (q_corrected_spec q)]"
  using pitch_float_spec_total[of "q_corrected_spec q"] by (auto simp: rpy_dash_float)

lemma rpy_dash_eq_fast:
  assumes "pitch_arg (q_corrected_spec q) \<noteq> NaN"
  shows "rpy_dash q = rpy_fast q"
  using assms by (simp add: rpy_dash_float rpy_fast_float)

lemma pitch_float_spec_NaN: "pitch_arg q = NaN \<Longrightarrow> pitch_float_spec q = Inr NaN"
  by (simp add: pitch_float_spec_def clamp_float_spec_NaN degrees_half_pi)

lemma pitch_float_spec_hi: "fgt (pitch_arg q) (Fin 1) \<Longrightarrow> pitch_float_spec q = Inr (Fin 90)"
  using pi_gt_zero by (simp add: pitch_float_spec_def clamp_float_spec_hi degrees_half_pi)

lemma pitch_float_spec_lo:
  "flt (pitch_arg q) (Fin (- 1)) \<Longrightarrow> pitch_float_spec q = Inr (Fin (- 90))"
  using pi_gt_zero by (simp add: pitch_float_spec_def clamp_float_spec_lo degrees_half_pi)

subsection \<open>The angles of a quaternion whose products do not overflow\<close>

lemma degrees_spec_range:
  "- pi \<le> r \<Longrightarrow> r \<le> pi \<Longrightarrow> - 180 \<le> degrees_spec r \<and> degrees_spec r \<le> 180"
  using pi_gt_zero by (simp add: degrees_spec_def field_simps)

lemma degrees_spec_pi: "degrees_spec pi = 180" "degrees_spec (- pi) = - 180"
  using pi_gt_zero by (simp_all add: degrees_spec_def)

lemma atan2_degrees_value:
  assumes "ffinite t0" and "ffinite t1" and "t1 \<noteq> NZero"
  shows "ffinite (py_degrees (py_atan2 t0 t1)) \<and>
         - 180 \<le> fval (py_degrees (py_atan2 t0 t1)) \<and>
         fval (py_degrees (py_atan2 t0 t1)) \<le> 180 \<and>
         (fval (py_degrees (py_atan2 t0 t1)) = degrees_spec (atan2_real (fval t0) (fval t1)) \<or>
          py_degrees (py_atan2 t0 t1) = Fin (- 180) \<and>
          degrees_spec (atan2_real (fval t0) (fval t1)) = 180)"
proof -
  note f = py_atan2_finite[OF assms]
  note r = py_atan2_finite_range[OF assms]
  have a: "\<bar>fval (py_atan2 t0 t1)\<bar> \<le> pi" using r by (simp add: abs_le_iff; linarith?)
  note d = py_degrees_exact[OF conjunct1[OF f] a]
  have "- 180 \<le> fval (py_degrees (py_atan2 t0 t1)) \<and> fval (py_degrees (py_atan2 t0 t1)) \<le> 180"
    using d degrees_spec_range[of "fval (py_atan2 t0 t1)"] r by simp
  moreover have "fval (py_degrees (py_atan2 t0 t1)) = degrees_spec (atan2_real (fval t0) (fval t1)) \<or>
          py_degrees (py_atan2 t0 t1) = Fin (- 180) \<and>
          degrees_spec (atan2_real (fval t0) (fval t1)) = 180"
    using f d by (auto simp: degrees_half_pi degrees_spec_pi)
  ultimately show ?thesis using d by blast
qed

lemma roll_float_value:
  assumes "small_quat q"
  shows "ffinite (roll_float_spec q) \<and>
         - 180 \<le> fval (roll_float_spec q) \<and> fval (roll_float_spec q) \<le> 180 \<and>
         (fval (roll_float_spec q) =
            roll_spec (fval (qx q)) (fval (qy q)) (fval (qz q)) (fval (qw q)) \<or>
          roll_float_spec q = Fin (- 180) \<and>
          roll_spec (fval (qx q)) (fval (qy q)) (fval (qz q)) (fval (qw q)) = 180)"
proof -
  obtain x y z w where q: "q = (x, y, z, w)" by (cases q)
  have s: "ffinite x" "ffinite y" "ffinite z" "ffinite w"
    "\<bar>fval x\<bar> \<le> quat_bound" "\<bar>fval y\<bar> \<le> quat_bound"
    "\<bar>fval z\<bar> \<le> quat_bound" "\<bar>fval w\<bar> \<le> quat_bound"
    using assms by (simp_all add: small_quat_def q)
  note t0 = two_sum_exact(1)[OF s(4) s(1) s(2) s(3) s(8) s(5) s(6) s(7)]
  note t1 = two_sum_exact(3)[OF s(1) s(1) s(2) s(2) s(5) s(5) s(6) s(6)]
  note v = atan2_degrees_value[OF conjunct1[OF t0] conjunct1[OF t1] fsub_Fin_not_NZero]
  show ?thesis
    using v t0 t1 by (simp add: q roll_float_spec_def roll_spec_def power2_eq_square)
qed

lemma yaw_float_value:
  assumes "small_quat q"
  shows "ffinite (yaw_float_spec q) \<and>
         - 180 \<le> fval (yaw_float_spec q) \<and> fval (yaw_float_spec q) \<le> 180 \<and>
         (fval (yaw_float_spec q) =
            yaw_spec (fval (qx q)) (fval (qy q)) (fval (qz q)) (fval (qw q)) \<or>
          yaw_float_spec q = Fin (- 180) \<and>
          yaw_spec (fval (qx q)) (fval (qy q)) (fval (qz q)) (fval (qw q)) = 180)"
proof -
  obtain x y z w where q: "q = (x, y, z, w)" by (cases q)
  have s: "ffinite x" "ffinite y" "ffinite z" "ffinite w"
    "\<bar>fval x\<bar> \<le> quat_bound" "\<bar>fval y\<bar> \<le> quat_bound"
    "\<bar>fval z\<bar> \<le> quat_bound" "\<bar>fval w\<bar> \<le> quat_bound"
    using assms by (simp_all add: small_quat_def q)
  note t3 = two_sum_exact(1)[OF s(4) s(3) s(1) s(2) s(8) s(7) s(5) s(6)]
  note t4 = two_sum_exact(3)[OF s(2) s(2) s(3) s(3) s(6) s(6) s(7) s(7)]
  note v = atan2_degrees_value[OF conjunct1[OF t3] conjunct1[OF t4] fsub_Fin_not_NZero]
  show ?thesis
    using v t3 t4 by (simp add: q yaw_float_spec_def yaw_spec_def power2_eq_square)
qed

lemma pitch_arg_value:
  assumes "small_quat q"
  shows "ffinite (pitch_arg q) \<and>
         fval (pitch_arg q) = 2 * (fval (qw q) * fval (qy q) - fval (qz q) * fval (qx q))"
proof -
  obtain x y z w where q: "q = (x, y, z, w)" by (cases q)
  have s: "ffinite x" "ffinite y" "ffinite z" "ffinite w"
    "\<bar>fval x\<bar> \<le> quat_bound" "\<bar>fval y\<bar> \<le> quat_bound"
    "\<bar>fval z\<bar> \<le> quat_bound" "\<bar>fval w\<bar> \<le> quat_bound"
    using assms by (simp_all add: small_quat_def q)
  note t2 = two_sum_exact(2)[OF s(4) s(2) s(3) s(1) s(8) s(6) s(7) s(5)]
  show ?thesis using t2 by (simp add: q pitch_arg_def)
qed

lemma pitch_float_value:
  assumes "small_quat q"
  shows "\<exists>p. pitch_float_spec q = Inr p \<and> ffinite p \<and>
           fval p = pitch_spec (fval (qx q)) (fval (qy q)) (fval (qz q)) (fval (qw q)) \<and>
           - 90 \<le> fval p \<and> fval p \<le> 90"
proof -
  note t = pitch_arg_value[OF assms]
  note c = clamp_float_spec_exact[OF conjunct1[OF t]]
  have b: "- 1 \<le> fval (clamp_float_spec (pitch_arg q))" "fval (clamp_float_spec (pitch_arg q)) \<le> 1"
    using c by (simp_all add: clamp_spec_def)
  obtain a where a: "py_asin (clamp_float_spec (pitch_arg q)) = Inr a" "ffinite a"
    "fval a = arcsin (fval (clamp_float_spec (pitch_arg q)))"
    using py_asin_exact[OF conjunct1[OF c] b] by blast
  have r: "- (pi / 2) \<le> fval a \<and> fval a \<le> pi / 2"
    unfolding a(3) using b by (intro arcsin_bounded)
  then have "\<bar>fval a\<bar> \<le> pi" using pi_gt_zero by (simp add: abs_le_iff; linarith?)
  note d = py_degrees_exact[OF a(2) this]
  have v: "fval (py_degrees a) =
      pitch_spec (fval (qx q)) (fval (qy q)) (fval (qz q)) (fval (qw q))"
    using d a(3) c t by (simp add: pitch_spec_def)
  have "- 90 \<le> degrees_spec (fval a) \<and> degrees_spec (fval a) \<le> 90"
    using r pi_gt_zero by (simp add: degrees_spec_def field_simps)
  then show ?thesis
    using a(1) d v by (simp add: pitch_float_spec_def)
qed

lemma small_quat_corrected: "small_quat q \<Longrightarrow> small_quat (q_corrected_spec q)"
proof -
  assume s: "small_quat q"
  obtain x y z w where q: "q = (x, y, z, w)" by (cases q)
  show ?thesis
    using s fneg_exact[of x] by (simp add: q q_corrected_spec_eq small_quat_def)
qed

lemma small_quat_not_NaN: "small_quat q \<Longrightarrow> pitch_arg q \<noteq> NaN"
  using pitch_arg_value[of q] by auto

subsection \<open>Evaluation on literals\<close>

lemma float_of_small_int:
  "py_float pf (JInt 0) = Inr (Fin 0)" "py_float pf (JInt 1) = Inr (Fin 1)"
  "py_float pf (JInt (- 1)) = Inr (Fin (- 1))" "py_float pf (JInt 2) = Inr (Fin 2)"
  "py_float pf (JInt 3) = Inr (Fin 3)" "py_float pf (JInt 4) = Inr (Fin 4)"
  by (simp_all add: float_overflows_def)

lemma float_of_float: "py_float pf (JFloat f) = Inr f"
  by simp

lemma py_degrees_Fin:
  assumes "\<bar>r\<bar> \<le> pi"
  shows "py_degrees (Fin r) = Fin (degrees_spec r)"
proof (cases "r = 0")
  case True
  then show ?thesis by (simp add: degrees_half_pi degrees_spec_def)
next
  case False
  have e: "ffinite (py_degrees (Fin r)) \<and> fval (py_degrees (Fin r)) = degrees_spec r"
    using py_degrees_exact[of "Fin r"] assms by simp
  have "degrees_spec r \<noteq> 0" using False pi_gt_zero by (simp add: degrees_spec_def)
  then show ?thesis using e by (cases "py_degrees (Fin r)") auto
qed

lemma degrees_atan2_real: "py_degrees (Fin (atan2_real y x)) = Fin (degrees_spec (atan2_real y x))"
  using atan2_real_range[of y x] by (intro py_degrees_Fin) (simp add: abs_le_iff; linarith?)

lemmas float_arith = fmul_def fadd_def fsub_def fresult_def overflow_bound_def flt_def fgt_def
  py_atan2_def clamp_float_spec_def pitch_arg_def degrees_half_pi degrees_atan2_real

subsection \<open>The frame correction\<close>

lemma roll_raw_pos: "0 < roll_spec 1 0 0 1"
proof -
  have "- (pi / 2) < arctan (- 2)" by (rule arctan_lbound)
  then have "0 < arctan (- 2) + pi" using pi_gt_zero by linarith
  then show ?thesis
    by (simp add: roll_spec_def atan2_real_def degrees_spec_def)
qed

lemma roll_corr_neg: "roll_spec (- 1) 0 0 1 < 0"
proof -
  have "arctan 2 < pi / 2" by (rule arctan_ubound)
  then have "arctan 2 - pi < 0" using pi_gt_zero by linarith
  then show ?thesis
    by (simp add: roll_spec_def atan2_real_def degrees_spec_def field_simps)
qed

lemma raw_and_corrected_example:
  "rpy_text (Fin 1, Fin 0, Fin 0, Fin 1) =
     Inr [RFloat (Fin (roll_spec 1 0 0 1)), RFloat (Fin 0), RFloat (Fin 0)]"
  "rpy_text (Fin (- 1), Fin 0, Fin 0, Fin 1) =
     Inr [RFloat (Fin (roll_spec (- 1) 0 0 1)), RFloat (Fin 0), RFloat (Fin 0)]"
  "q_corrected_spec (Fin 1, Fin 0, Fin 0, Fin 1) = (Fin (- 1), Fin 0, Fin 0, Fin 1)"
  by (simp_all add: rpy_text_float roll_float_spec_def pitch_float_spec_def yaw_float_spec_def
      q_corrected_spec_eq roll_spec_def float_arith)

text \<open>
  Claim C2, as stated, covers every variant of the decoder. The decoder of
  \<open>rpy_output_text.py\<close> applies no frame correction and returns three angles and no
  quaternion: on \<open>[1, 0, 0, 1]\<close> its roll is the roll of the raw quaternion, which is
  positive, while \<open>Orientation_Fast.py\<close> returns the roll of the corrected quaternion
  \<open>(-1, 0, 0, 1)\<close>, which is negative.
\<close>

theorem text_decoder_not_corrected:
  "get_rpy_text Map.empty (JList [JInt 1, JInt 0, JInt 0, JInt 1]) =
     Inr [RFloat (Fin (roll_spec 1 0 0 1)), RFloat (Fin 0), RFloat (Fin 0)] \<and>
   get_rpy_fast Map.empty (JList [JInt 1, JInt 0, JInt 0, JInt 1]) =
     Inr [RFloat (Fin (roll_spec (- 1) 0 0 1)), RFloat (Fin 0), RFloat (Fin 0),
          RQuat (Fin (- 1), Fin 0, Fin 0, Fin 1)] \<and>
   0 < roll_spec 1 0 0 1 \<and> roll_spec (- 1) 0 0 1 < 0"
proof -
  have i: "py_iter (JList [JInt 1, JInt 0, JInt 0, JInt 1]) =
      Inr (JInt 1 # JInt 0 # JInt 0 # JInt 1 # [])"
    by simp
  note g = get_rpy_items(1,3)[OF i float_of_small_int(2) float_of_small_int(1)
      float_of_small_int(1) float_of_small_int(2), of Map.empty]
  show ?thesis
    unfolding g rpy_fast_via_text using roll_raw_pos roll_corr_neg
    by (simp add: raw_and_corrected_example)
qed

text \<open>
  Claim C2, amended. For an input whose first four items coerce to floats \<open>(x, y, z, w)\<close>,
  the two-step correction gives \<open>(-x, y, z, w)\<close>. \<open>Orientation_Fast.py\<close> returns the angles
  that the uncorrected extraction (the one of \<open>rpy_output_text.py\<close>) gives on the corrected
  quaternion, followed by the corrected quaternion. So does \<open>Sensor_Dashboard.py\<close>, except
  when the pitch argument of the corrected quaternion is NaN: the roll and the yaw are
  then still the ones of the corrected quaternion, and the pitch is 90 degrees where the
  extraction gives NaN. \<open>rpy_output_text.py\<close> extracts the angles from the raw quaternion.
\<close>

theorem frame_correction_fast_dash:
  assumes "py_iter vals = Inr (a # b # c # d # rest)"
    and "py_float pf a = Inr x" and "py_float pf b = Inr y"
    and "py_float pf c = Inr z" and "py_float pf d = Inr w"
  shows "q_corrected_spec (x, y, z, w) = (fneg x, y, z, w) \<and>
     get_rpy_fast pf vals =
       ebind (rpy_text (q_corrected_spec (x, y, z, w)))
         (\<lambda>t. Inr (t @ [RQuat (q_corrected_spec (x, y, z, w))])) \<and>
     (pitch_arg (q_corrected_spec (x, y, z, w)) \<noteq> NaN \<longrightarrow>
        get_rpy_dash pf vals =
          ebind (rpy_text (q_corrected_spec (x, y, z, w)))
            (\<lambda>t. Inr (t @ [RQuat (q_corrected_spec (x, y, z, w))]))) \<and>
     (pitch_arg (q_corrected_spec (x, y, z, w)) = NaN \<longrightarrow>
        (\<exists>r yw. rpy_text (q_corrected_spec (x, y, z, w)) = Inr [RFloat r, RFloat NaN, RFloat yw] \<and>
           get_rpy_dash pf vals =
             Inr [RFloat r, RFloat (Fin 90), RFloat yw,
                  RQuat (q_corrected_spec (x, y, z, w))])) \<and>
     get_rpy_text pf vals = rpy_text (x, y, z, w)"
proof -
  let ?qc = "q_corrected_spec (x, y, z, w)"
  note g = get_rpy_items[OF assms]
  have f: "get_rpy_fast pf vals = ebind (rpy_text ?qc) (\<lambda>t. Inr (t @ [RQuat ?qc]))"
    using g(1) rpy_fast_via_text[of "(x, y, z, w)"] by simp
  have d1: "pitch_arg ?qc \<noteq> NaN \<longrightarrow>
      get_rpy_dash pf vals = ebind (rpy_text ?qc) (\<lambda>t. Inr (t @ [RQuat ?qc]))"
    using g(2) f g(1) rpy_dash_eq_fast[of "(x, y, z, w)"] by simp
  have d2: "pitch_arg ?qc = NaN \<longrightarrow>
      (\<exists>r yw. rpy_text ?qc = Inr [RFloat r, RFloat NaN, RFloat yw] \<and>
         get_rpy_dash pf vals = Inr [RFloat r, RFloat (Fin 90), RFloat yw, RQuat ?qc])"
    using g(2) by (simp add: rpy_dash_float rpy_text_float pitch_float_spec_NaN)
  show ?thesis
    using f d1 d2 g(3) q_corrected_spec_eq[of x y z w] by blast
qed

theorem frame_correction_fast_dash_witness:
  "q_corrected_spec (Fin 1, Fin 2, Fin 3, Fin 4) = (Fin (- 1), Fin 2, Fin 3, Fin 4) \<and>
   pitch_arg (Fin (- 1), Fin 2, Fin 3, Fin 4) = Fin 22 \<and>
   get_rpy_fast Map.empty (JList [JInt 1, JInt 2, JInt 3, JInt 4]) =
     ebind (rpy_text (Fin (- 1), Fin 2, Fin 3, Fin 4))
       (\<lambda>t. Inr (t @ [RQuat (Fin (- 1), Fin 2, Fin 3, Fin 4)])) \<and>
   get_rpy_dash Map.empty (JList [JInt 1, JInt 2, JInt 3, JInt 4]) =
     ebind (rpy_text (Fin (- 1), Fin 2, Fin 3, Fin 4))
       (\<lambda>t. Inr (t @ [RQuat (Fin (- 1), Fin 2, Fin 3, Fin 4)])) \<and>
   get_rpy_text Map.empty (JList [JInt 1, JInt 2, JInt 3, JInt 4]) =
     rpy_text (Fin 1, Fin 2, Fin 3, Fin 4) \<and>
   pitch_arg (q_corrected_spec (NaN, Fin 0, Fin 0, Fin 0)) = NaN \<and>
   (\<exists>r yw. rpy_text (q_corrected_spec (NaN, Fin 0, Fin 0, Fin 0)) =
        Inr [RFloat r, RFloat NaN, RFloat yw] \<and>
      get_rpy_dash Map.empty (JList [JFloat NaN, JInt 0, JInt 0, JInt 0]) =
        Inr [RFloat r, RFloat (Fin 90), RFloat yw,
             RQuat (q_corrected_spec (NaN, Fin 0, Fin 0, Fin 0))])"
proof -
  have i: "py_iter (JList [JInt 1, JInt 2, JInt 3, JInt 4]) =
      Inr (JInt 1 # JInt 2 # JInt 3 # JInt 4 # [])"
    by simp
  have j: "py_iter (JList [JFloat NaN, JInt 0, JInt 0, JInt 0]) =
      Inr (JFloat NaN # JInt 0 # JInt 0 # JInt 0 # [])"
    by simp
  have q: "q_corrected_spec (Fin 1, Fin 2, Fin 3, Fin 4) = (Fin (- 1), Fin 2, Fin 3, Fin 4)"
    by (simp add: q_corrected_spec_eq)
  have n: "pitch_arg (Fin (- 1), Fin 2, Fin 3, Fin 4) = Fin 22"
    by (simp add: float_arith)
  have m: "pitch_arg (q_corrected_spec (NaN, Fin 0, Fin 0, Fin 0)) = NaN"
    by (simp add: q_corrected_spec_eq float_arith)
  note T1 = frame_correction_fast_dash[OF i float_of_small_int(2) float_of_small_int(4)
      float_of_small_int(5) float_of_small_int(6), of Map.empty, unfolded q]
  note T2 = frame_correction_fast_dash[OF j float_of_float float_of_small_int(1)
      float_of_small_int(1) float_of_small_int(1), of Map.empty]
  have n': "pitch_arg (Fin (- 1), Fin 2, Fin 3, Fin 4) \<noteq> NaN" using n by simp
  show ?thesis
    using q n m n' T1 T2 by blast
qed

subsection \<open>The worked example \<open>(0, 0, 0.7071, 0.7071)\<close>\<close>

lemma arctan_le_self:
  assumes "0 \<le> v"
  shows "arctan v \<le> v"
proof -
  have "(\<lambda>t. t - arctan t) 0 \<le> (\<lambda>t. t - arctan t) v"
  proof (rule DERIV_nonneg_imp_nondecreasing[OF assms])
    fix t :: real
    have "((\<lambda>t. t - arctan t) has_real_derivative 1 - inverse (1 + t\<^sup>2)) (at t)"
      by (auto intro!: derivative_eq_intros)
    moreover have "0 \<le> 1 - inverse (1 + t\<^sup>2)"
    proof -
      have "1 \<le> 1 + t\<^sup>2" by simp
      then have "inverse (1 + t\<^sup>2) \<le> 1" by (simp add: inverse_le_1_iff)
      then show ?thesis by simp
    qed
    ultimately show "\<exists>y. ((\<lambda>t. t - arctan t) has_real_derivative y) (at t) \<and> 0 \<le> y"
      by blast
  qed
  then show ?thesis by simp
qed

lemma yaw_example_value:
  "yaw_spec 0 0 0.7071 0.7071 = arctan (49999041 / 959) * 180 / pi"
  by (simp add: yaw_spec_def atan2_real_def degrees_spec_def power2_eq_square)

lemma yaw_example_bounds:
  "89.99 < yaw_spec 0 0 0.7071 0.7071 \<and> yaw_spec 0 0 0.7071 0.7071 < 90"
proof -
  have inv: "arctan (959 / 49999041) = pi / 2 - arctan (49999041 / 959)"
    using arctan_inverse[of "49999041 / 959"] by simp
  have "arctan (959 / 49999041) \<le> 959 / 49999041" by (rule arctan_le_self) simp
  then have lo: "pi / 2 - 959 / 49999041 \<le> arctan (49999041 / 959)" using inv by linarith
  have hi: "arctan (49999041 / 959) < pi / 2" by (rule arctan_ubound)
  have p: "2 \<le> pi" by (rule pi_ge_two)
  have "89.99 * pi < (pi / 2 - 959 / 49999041) * 180" using p by simp
  also have "\<dots> \<le> arctan (49999041 / 959) * 180" using lo by simp
  finally have a: "89.99 < arctan (49999041 / 959) * 180 / pi"
    using pi_gt_zero by (simp add: field_simps)
  have "arctan (49999041 / 959) * 180 < 90 * pi" using hi by simp
  then have b: "arctan (49999041 / 959) * 180 / pi < 90"
    using pi_gt_zero by (simp add: field_simps)
  show ?thesis unfolding yaw_example_value using a b by simp
qed

lemma example_items:
  "py_iter (JList [JFloat (Fin 0), JFloat (Fin 0), JFloat (Fin 0.7071), JFloat (Fin 0.7071)]) =
     Inr (JFloat (Fin 0) # JFloat (Fin 0) # JFloat (Fin 0.7071) # JFloat (Fin 0.7071) # [])"
  by simp

lemma example_angles:
  "q_corrected_spec (Fin 0, Fin 0, Fin (7071 / 10000), Fin (7071 / 10000)) =
     (NZero, Fin 0, Fin (7071 / 10000), Fin (7071 / 10000))"
  "roll_float_spec (NZero, Fin 0, Fin (7071 / 10000), Fin (7071 / 10000)) = Fin 0"
  "pitch_float_spec (NZero, Fin 0, Fin (7071 / 10000), Fin (7071 / 10000)) = Inr (Fin 0)"
  "yaw_float_spec (NZero, Fin 0, Fin (7071 / 10000), Fin (7071 / 10000)) = Fin (yaw_spec 0 0 (7071 / 10000) (7071 / 10000))"
  "pitch_arg (NZero, Fin 0, Fin (7071 / 10000), Fin (7071 / 10000)) = Fin 0"
  by (simp_all add: q_corrected_spec_eq roll_float_spec_def pitch_float_spec_def
      yaw_float_spec_def yaw_spec_def power2_eq_square float_arith)

text \<open>
  Claim C3 expects a yaw of about \<open>-90\<close> degrees on \<open>(0, 0, 0.7071, 0.7071)\<close>. The two
  steps of the correction flip \<open>z\<close> twice, so the corrected quaternion is the input itself
  (with a negative zero for \<open>x\<close>) and the decoder's yaw is positive.
\<close>

theorem yaw_example_is_positive:
  "get_rpy_fast Map.empty
     (JList [JFloat (Fin 0), JFloat (Fin 0), JFloat (Fin 0.7071), JFloat (Fin 0.7071)]) =
     Inr [RFloat (Fin 0), RFloat (Fin 0), RFloat (Fin (yaw_spec 0 0 0.7071 0.7071)),
          RQuat (NZero, Fin 0, Fin 0.7071, Fin 0.7071)] \<and>
   0 < yaw_spec 0 0 0.7071 0.7071"
  using yaw_example_bounds
    get_rpy_items(1)[OF example_items float_of_float float_of_float float_of_float float_of_float,
      of Map.empty]
  by (simp add: rpy_fast_float example_angles)

text \<open>
  Claim C3, amended. On \<open>(0, 0, 0.7071, 0.7071)\<close> the decoders of \<open>Orientation_Fast.py\<close>
  and \<open>Sensor_Dashboard.py\<close> return roll 0, pitch 0, a yaw between 89.99 and 90 degrees,
  and the corrected quaternion \<open>(-0.0, 0, 0.7071, 0.7071)\<close>.
\<close>

theorem yaw_example_near_plus_90:
  "get_rpy_fast pf
     (JList [JFloat (Fin 0), JFloat (Fin 0), JFloat (Fin 0.7071), JFloat (Fin 0.7071)]) =
     Inr [RFloat (Fin 0), RFloat (Fin 0), RFloat (Fin (yaw_spec 0 0 0.7071 0.7071)),
          RQuat (NZero, Fin 0, Fin 0.7071, Fin 0.7071)] \<and>
   get_rpy_dash pf
     (JList [JFloat (Fin 0), JFloat (Fin 0), JFloat (Fin 0.7071), JFloat (Fin 0.7071)]) =
     Inr [RFloat (Fin 0), RFloat (Fin 0), RFloat (Fin (yaw_spec 0 0 0.7071 0.7071)),
          RQuat (NZero, Fin 0, Fin 0.7071, Fin 0.7071)] \<and>
   89.99 < yaw_spec 0 0 0.7071 0.7071 \<and> yaw_spec 0 0 0.7071 0.7071 < 90"
  using yaw_example_bounds
    get_rpy_items(1,2)[OF example_items float_of_float float_of_float float_of_float
      float_of_float, of pf]
  by (simp add: rpy_fast_float rpy_dash_float example_angles)

subsection \<open>The Euler formulas\<close>


lemma small_quat_example: "small_quat (Fin (- 1), Fin 2, Fin 3, Fin 4)"
  by (simp add: small_quat_def quat_bound_def)


subsection \<open>Unit quaternions\<close>

lemma unit_rows:
  fixes x y z w :: real
  assumes "x\<^sup>2 + y\<^sup>2 + z\<^sup>2 + w\<^sup>2 = 1"
  shows "orthonormal_rows (rotmat_spec x y z w)"
proof -
  have d00: "(1 - 2 * (y\<^sup>2 + z\<^sup>2)) * (1 - 2 * (y\<^sup>2 + z\<^sup>2)) +
      (2 * (x * y - z * w) * (2 * (x * y - z * w)) +
       2 * (x * z + y * w) * (2 * (x * z + y * w))) = 1"
    using assms by algebra
  have d11: "2 * (x * y + z * w) * (2 * (x * y + z * w)) +
      ((1 - 2 * (x\<^sup>2 + z\<^sup>2)) * (1 - 2 * (x\<^sup>2 + z\<^sup>2)) +
       2 * (y * z - x * w) * (2 * (y * z - x * w))) = 1"
    using assms by algebra
  have d22: "2 * (x * z - y * w) * (2 * (x * z - y * w)) +
      (2 * (y * z + x * w) * (2 * (y * z + x * w)) +
       (1 - 2 * (x\<^sup>2 + y\<^sup>2)) * (1 - 2 * (x\<^sup>2 + y\<^sup>2))) = 1"
    using assms by algebra
  have d01: "(1 - 2 * (y\<^sup>2 + z\<^sup>2)) * (2 * (x * y + z * w)) +
      (2 * (x * y - z * w) * (1 - 2 * (x\<^sup>2 + z\<^sup>2)) +
       2 * (x * z + y * w) * (2 * (y * z - x * w))) = 0"
    using assms by algebra
  have d02: "(1 - 2 * (y\<^sup>2 + z\<^sup>2)) * (2 * (x * z - y * w)) +
      (2 * (x * y - z * w) * (2 * (y * z + x * w)) +
       2 * (x * z + y * w) * (1 - 2 * (x\<^sup>2 + y\<^sup>2))) = 0"
    using assms by algebra
  have d12: "2 * (x * y + z * w) * (2 * (x * z - y * w)) +
      ((1 - 2 * (x\<^sup>2 + z\<^sup>2)) * (2 * (y * z + x * w)) +
       2 * (y * z - x * w) * (1 - 2 * (x\<^sup>2 + y\<^sup>2))) = 0"
    using assms by algebra
  show ?thesis
    unfolding orthonormal_rows_def rotmat_spec_def dot_def
    using d00 d11 d22 d01 d02 d12 by simp
qed

lemma rotmat_exact:
  assumes "small_quat (x, y, z, w)"
  shows "list_all (list_all ffinite) (rotmat_from_quat x y z w) \<and>
         map (map fval) (rotmat_from_quat x y z w) =
           rotmat_spec (fval x) (fval y) (fval z) (fval w)"
proof -
  have s: "ffinite x" "ffinite y" "ffinite z" "ffinite w"
    "\<bar>fval x\<bar> \<le> quat_bound" "\<bar>fval y\<bar> \<le> quat_bound"
    "\<bar>fval z\<bar> \<le> quat_bound" "\<bar>fval w\<bar> \<le> quat_bound"
    using assms by (simp_all add: small_quat_def)
  note e00 = two_sum_exact(3)[OF s(2) s(2) s(3) s(3) s(6) s(6) s(7) s(7)]
  note e01 = two_sum_exact(2)[OF s(1) s(2) s(3) s(4) s(5) s(6) s(7) s(8)]
  note e02 = two_sum_exact(1)[OF s(1) s(3) s(2) s(4) s(5) s(7) s(6) s(8)]
  note e10 = two_sum_exact(1)[OF s(1) s(2) s(3) s(4) s(5) s(6) s(7) s(8)]
  note e11 = two_sum_exact(3)[OF s(1) s(1) s(3) s(3) s(5) s(5) s(7) s(7)]
  note e12 = two_sum_exact(2)[OF s(2) s(3) s(1) s(4) s(6) s(7) s(5) s(8)]
  note e20 = two_sum_exact(2)[OF s(1) s(3) s(2) s(4) s(5) s(7) s(6) s(8)]
  note e21 = two_sum_exact(1)[OF s(2) s(3) s(1) s(4) s(6) s(7) s(5) s(8)]
  note e22 = two_sum_exact(3)[OF s(1) s(1) s(2) s(2) s(5) s(5) s(6) s(6)]
  show ?thesis
    unfolding rotmat_from_quat_def rotmat_spec_def
    using e00 e01 e02 e10 e11 e12 e20 e21 e22 by (simp add: power2_eq_square)
qed

lemma unit_small:
  assumes "ffinite x" and "ffinite y" and "ffinite z" and "ffinite w"
    and "(fval x)\<^sup>2 + (fval y)\<^sup>2 + (fval z)\<^sup>2 + (fval w)\<^sup>2 = 1"
  shows "small_quat (x, y, z, w)"
proof -
  have b: "1 \<le> quat_bound" by (simp add: quat_bound_def)
  have le: "\<And>u v t s :: real. u\<^sup>2 + v\<^sup>2 + t\<^sup>2 + s\<^sup>2 = 1 \<Longrightarrow> \<bar>u\<bar> \<le> 1"
  proof -
    fix u v t s :: real
    assume "u\<^sup>2 + v\<^sup>2 + t\<^sup>2 + s\<^sup>2 = 1"
    moreover have "0 \<le> v\<^sup>2" "0 \<le> t\<^sup>2" "0 \<le> s\<^sup>2" by simp_all
    ultimately have "u\<^sup>2 \<le> 1" by linarith
    then have "u\<^sup>2 \<le> 1\<^sup>2" by simp
    then show "\<bar>u\<bar> \<le> 1" using abs_le_square_iff[of u 1] by simp
  qed
  have "\<bar>fval x\<bar> \<le> 1" using le[of "fval x" "fval y" "fval z" "fval w"] assms(5) by simp
  moreover have "\<bar>fval y\<bar> \<le> 1"
    using le[of "fval y" "fval x" "fval z" "fval w"] assms(5) by (simp add: add.commute)
  moreover have "\<bar>fval z\<bar> \<le> 1"
    using le[of "fval z" "fval x" "fval y" "fval w"] assms(5) by (simp add: algebra_simps)
  moreover have "\<bar>fval w\<bar> \<le> 1"
    using le[of "fval w" "fval x" "fval y" "fval z"] assms(5) by (simp add: algebra_simps)
  ultimately show ?thesis using assms(1-4) b by (simp add: small_quat_def)
qed

text \<open>
  Claim C5 gives roll and yaw the half-open range \<open>(-180, 180]\<close>. On the unit quaternion
  \<open>(0, -1, 0, 0)\<close> the corrected quaternion is \<open>(-0.0, -1, 0, 0)\<close>, the numerator of the
  roll is a negative zero and its denominator is \<open>-1\<close>, and \<open>atan2(-0.0, -1.0)\<close> is
  \<open>-pi\<close>: both decoders return a roll of \<open>-180\<close> degrees.
\<close>

theorem unit_quaternion_roll_minus_180:
  "(fval (Fin 0))\<^sup>2 + (fval (Fin (- 1)))\<^sup>2 + (fval (Fin 0))\<^sup>2 + (fval (Fin 0))\<^sup>2 = 1 \<and>
   get_rpy_fast Map.empty (JList [JInt 0, JInt (- 1), JInt 0, JInt 0]) =
     Inr [RFloat (Fin (- 180)), RFloat (Fin 0), RFloat (Fin 180),
          RQuat (NZero, Fin (- 1), Fin 0, Fin 0)] \<and>
   get_rpy_dash Map.empty (JList [JInt 0, JInt (- 1), JInt 0, JInt 0]) =
     Inr [RFloat (Fin (- 180)), RFloat (Fin 0), RFloat (Fin 180),
          RQuat (NZero, Fin (- 1), Fin 0, Fin 0)] \<and>
   \<not> - 180 < fval (Fin (- 180))"
proof -
  have i: "py_iter (JList [JInt 0, JInt (- 1), JInt 0, JInt 0]) =
      Inr (JInt 0 # JInt (- 1) # JInt 0 # JInt 0 # [])"
    by simp
  note g = get_rpy_items(1,2)[OF i float_of_small_int(1) float_of_small_int(3)
      float_of_small_int(1) float_of_small_int(1), of Map.empty]
  have q: "q_corrected_spec (Fin 0, Fin (- 1), Fin 0, Fin 0) = (NZero, Fin (- 1), Fin 0, Fin 0)"
    by (simp add: q_corrected_spec_eq)
  have a: "roll_float_spec (NZero, Fin (- 1), Fin 0, Fin 0) = Fin (- 180)"
    "pitch_float_spec (NZero, Fin (- 1), Fin 0, Fin 0) = Inr (Fin 0)"
    "yaw_float_spec (NZero, Fin (- 1), Fin 0, Fin 0) = Fin 180"
    "pitch_arg (NZero, Fin (- 1), Fin 0, Fin 0) = Fin 0"
    by (simp_all add: roll_float_spec_def pitch_float_spec_def yaw_float_spec_def float_arith)
  show ?thesis
    unfolding g by (simp add: rpy_fast_float rpy_dash_float q a)
qed

text \<open>
  Claim C5, amended. For an input that coerces to a unit quaternion both decoders return
  finite angles, roll and yaw in \<open>[-180, 180]\<close> and pitch in \<open>[-90, 90]\<close>, and the entries
  of the rotation matrix of the corrected quaternion (the one the viewers render) and of
  the quaternion itself are finite, with the values of the specification's matrix, whose
  rows have unit length and are mutually orthogonal, exactly over the reals.
\<close>

theorem unit_quaternion_ranges_and_matrix:
  assumes "py_iter vals = Inr (a # b # c # d # rest)"
    and "py_float pf a = Inr x" and "py_float pf b = Inr y"
    and "py_float pf c = Inr z" and "py_float pf d = Inr w"
    and "ffinite x" and "ffinite y" and "ffinite z" and "ffinite w"
    and "(fval x)\<^sup>2 + (fval y)\<^sup>2 + (fval z)\<^sup>2 + (fval w)\<^sup>2 = 1"
  shows "(\<exists>r p yw.
       get_rpy_fast pf vals = Inr [RFloat r, RFloat p, RFloat yw, RQuat (fneg x, y, z, w)] \<and>
       get_rpy_dash pf vals = Inr [RFloat r, RFloat p, RFloat yw, RQuat (fneg x, y, z, w)] \<and>
       ffinite r \<and> ffinite p \<and> ffinite yw \<and>
       - 180 \<le> fval r \<and> fval r \<le> 180 \<and>
       - 90 \<le> fval p \<and> fval p \<le> 90 \<and>
       - 180 \<le> fval yw \<and> fval yw \<le> 180) \<and>
     list_all (list_all ffinite) (rotmat_from_quat (fneg x) y z w) \<and>
     map (map fval) (rotmat_from_quat (fneg x) y z w) =
       rotmat_spec (- fval x) (fval y) (fval z) (fval w) \<and>
     orthonormal_rows (rotmat_spec (- fval x) (fval y) (fval z) (fval w)) \<and>
     list_all (list_all ffinite) (rotmat_from_quat x y z w) \<and>
     map (map fval) (rotmat_from_quat x y z w) =
       rotmat_spec (fval x) (fval y) (fval z) (fval w) \<and>
     orthonormal_rows (rotmat_spec (fval x) (fval y) (fval z) (fval w))"
proof -
  let ?qc = "(fneg x, y, z, w)"
  have qc: "q_corrected_spec (x, y, z, w) = ?qc" by (rule q_corrected_spec_eq)
  have sq: "small_quat (x, y, z, w)" using assms(6-10) by (rule unit_small)
  have sc: "small_quat ?qc" using small_quat_corrected[OF sq] qc by simp
  have fx: "fval (fneg x) = - fval x" using fneg_exact[OF assms(6)] by simp
  have u': "(- fval x)\<^sup>2 + (fval y)\<^sup>2 + (fval z)\<^sup>2 + (fval w)\<^sup>2 = 1" using assms(10) by simp
  note g = get_rpy_items(1,2)[OF assms(1-5)]
  obtain p where p: "pitch_float_spec ?qc = Inr p" "ffinite p" "- 90 \<le> fval p" "fval p \<le> 90"
    using pitch_float_value[OF sc] by blast
  have n: "pitch_arg ?qc \<noteq> NaN" using sc by (rule small_quat_not_NaN)
  have f: "get_rpy_fast pf vals =
      Inr [RFloat (roll_float_spec ?qc), RFloat p, RFloat (yaw_float_spec ?qc), RQuat ?qc]"
    using g(1) p(1) by (simp add: rpy_fast_float qc)
  have dd: "get_rpy_dash pf vals =
      Inr [RFloat (roll_float_spec ?qc), RFloat p, RFloat (yaw_float_spec ?qc), RQuat ?qc]"
    using g(2) p(1) n by (simp add: rpy_dash_float qc)
  have angles: "\<exists>r p yw.
       get_rpy_fast pf vals = Inr [RFloat r, RFloat p, RFloat yw, RQuat ?qc] \<and>
       get_rpy_dash pf vals = Inr [RFloat r, RFloat p, RFloat yw, RQuat ?qc] \<and>
       ffinite r \<and> ffinite p \<and> ffinite yw \<and>
       - 180 \<le> fval r \<and> fval r \<le> 180 \<and>
       - 90 \<le> fval p \<and> fval p \<le> 90 \<and>
       - 180 \<le> fval yw \<and> fval yw \<le> 180"
    using f dd p(2-4) roll_float_value[OF sc] yaw_float_value[OF sc] by blast
  have m1: "list_all (list_all ffinite) (rotmat_from_quat (fneg x) y z w) \<and>
     map (map fval) (rotmat_from_quat (fneg x) y z w) =
       rotmat_spec (- fval x) (fval y) (fval z) (fval w)"
    using rotmat_exact[OF sc] fx by simp
  show ?thesis
    using angles m1 rotmat_exact[OF sq] unit_rows[OF u'] unit_rows[OF assms(10)] by blast
qed

theorem unit_quaternion_ranges_and_matrix_witness:
  "ffinite (Fin (1 / 2)) \<and>
   (fval (Fin (1 / 2)))\<^sup>2 + (fval (Fin (1 / 2)))\<^sup>2 + (fval (Fin (1 / 2)))\<^sup>2 +
     (fval (Fin (1 / 2)))\<^sup>2 = 1 \<and>
   (\<exists>r p yw.
      get_rpy_fast Map.empty
        (JList [JFloat (Fin (1 / 2)), JFloat (Fin (1 / 2)), JFloat (Fin (1 / 2)),
                JFloat (Fin (1 / 2))]) =
        Inr [RFloat r, RFloat p, RFloat yw,
             RQuat (fneg (Fin (1 / 2)), Fin (1 / 2), Fin (1 / 2), Fin (1 / 2))] \<and>
      ffinite r \<and> ffinite p \<and> ffinite yw \<and>
      - 180 \<le> fval r \<and> fval r \<le> 180 \<and>
      - 90 \<le> fval p \<and> fval p \<le> 90 \<and>
      - 180 \<le> fval yw \<and> fval yw \<le> 180) \<and>
   orthonormal_rows
     (map (map fval) (rotmat_from_quat (fneg (Fin (1 / 2))) (Fin (1 / 2)) (Fin (1 / 2))
        (Fin (1 / 2))))"
proof -
  have i: "py_iter (JList [JFloat (Fin (1 / 2)), JFloat (Fin (1 / 2)), JFloat (Fin (1 / 2)),
                JFloat (Fin (1 / 2))]) =
      Inr (JFloat (Fin (1 / 2)) # JFloat (Fin (1 / 2)) # JFloat (Fin (1 / 2)) #
           JFloat (Fin (1 / 2)) # [])"
    by simp
  have f: "ffinite (Fin (1 / 2))" by simp
  have u: "(fval (Fin (1 / 2)))\<^sup>2 + (fval (Fin (1 / 2)))\<^sup>2 + (fval (Fin (1 / 2)))\<^sup>2 +
     (fval (Fin (1 / 2)))\<^sup>2 = 1"
    by (simp add: power2_eq_square)
  note T = unit_quaternion_ranges_and_matrix[OF i float_of_float float_of_float float_of_float
      float_of_float f f f f u, of Map.empty]
  have o: "orthonormal_rows
     (map (map fval) (rotmat_from_quat (fneg (Fin (1 / 2))) (Fin (1 / 2)) (Fin (1 / 2))
        (Fin (1 / 2))))"
    using T by metis
  show ?thesis
    using f u T o by blast
qed

subsection \<open>The pitch clamp\<close>

lemma get_rpy_fast_no_ValueError: "get_rpy_fast pf vals \<noteq> Inl ValueError"
proof (cases "py_len vals")
  case (Inl e)
  then show ?thesis by (cases vals) (auto simp: get_rpy_fast_def)
next
  case (Inr n)
  show ?thesis
  proof (cases "coerce_fast pf vals")
    case (Inl e)
    then show ?thesis using Inr by (auto simp: get_rpy_fast_def caught_fast_def)
  next
    case q: (Inr q)
    then show ?thesis using Inr rpy_fast_total[of q] by (auto simp: get_rpy_fast_def)
  qed
qed

lemma get_rpy_dash_no_ValueError: "get_rpy_dash pf vals \<noteq> Inl ValueError"
proof (cases "py_len vals")
  case (Inl e)
  then show ?thesis by (cases vals) (auto simp: get_rpy_dash_def)
next
  case (Inr n)
  show ?thesis
  proof (cases "coerce_dash pf vals")
    case (Inl e)
    then show ?thesis using Inr by (auto simp: get_rpy_dash_def caught_dash_def)
  next
    case q: (Inr q)
    then show ?thesis using Inr rpy_dash_total[of q] by (auto simp: get_rpy_dash_def)
  qed
qed

lemma fgt_not_NaN: "fgt t a \<Longrightarrow> t \<noteq> NaN"
  by (auto simp: fgt_def flt_def)

lemma flt_not_NaN: "flt t a \<Longrightarrow> t \<noteq> NaN"
  by (auto simp: flt_def)

lemma fgt_finite: "ffinite t \<Longrightarrow> fgt t (Fin r) \<longleftrightarrow> r < fval t"
  by (cases t) (auto simp: fgt_def flt_def)

lemma flt_finite: "ffinite t \<Longrightarrow> flt t (Fin r) \<longleftrightarrow> fval t < r"
  by (cases t) (auto simp: flt_def)

lemma decoders_pitch_hi:
  assumes "fgt (pitch_arg (q_corrected_spec q)) (Fin 1)"
  shows "rpy_fast q =
      Inr [RFloat (roll_float_spec (q_corrected_spec q)), RFloat (Fin 90),
           RFloat (yaw_float_spec (q_corrected_spec q)), RQuat (q_corrected_spec q)]"
    and "rpy_dash q =
      Inr [RFloat (roll_float_spec (q_corrected_spec q)), RFloat (Fin 90),
           RFloat (yaw_float_spec (q_corrected_spec q)), RQuat (q_corrected_spec q)]"
  using pitch_float_spec_hi[OF assms] fgt_not_NaN[OF assms]
  by (simp_all add: rpy_fast_float rpy_dash_float)

lemma decoders_pitch_lo:
  assumes "flt (pitch_arg (q_corrected_spec q)) (Fin (- 1))"
  shows "rpy_fast q =
      Inr [RFloat (roll_float_spec (q_corrected_spec q)), RFloat (Fin (- 90)),
           RFloat (yaw_float_spec (q_corrected_spec q)), RQuat (q_corrected_spec q)]"
    and "rpy_dash q =
      Inr [RFloat (roll_float_spec (q_corrected_spec q)), RFloat (Fin (- 90)),
           RFloat (yaw_float_spec (q_corrected_spec q)), RQuat (q_corrected_spec q)]"
  using pitch_float_spec_lo[OF assms] flt_not_NaN[OF assms]
  by (simp_all add: rpy_fast_float rpy_dash_float)

text \<open>
  Claim C6. Whatever the input, a decoder never raises ValueError: \<open>math.asin\<close> is never
  called outside its domain. For an input whose first four items coerce to floats, when
  the pitch argument \<open>t = 2(wy - zx)\<close> that the decoder computes from the corrected
  quaternion \<open>qc\<close> is above 1 (infinity included) both decoders return a pitch of exactly
  90 degrees, and when it is below -1 a pitch of -90 degrees. When no product overflows,
  the computed \<open>t\<close> is above 1 (below -1) exactly when the real number \<open>2(wy - zx)\<close> is.
\<close>

theorem pitch_clamped_no_domain_error:
  "get_rpy_fast pf v \<noteq> Inl ValueError \<and> get_rpy_dash pf v \<noteq> Inl ValueError \<and>
   (py_iter vals = Inr (a # b # c # d # rest) \<and>
    py_float pf a = Inr x \<and> py_float pf b = Inr y \<and>
    py_float pf c = Inr z \<and> py_float pf d = Inr w \<and>
    q_corrected_spec (x, y, z, w) = qc \<longrightarrow>
      (fgt (pitch_arg qc) (Fin 1) \<longrightarrow>
         get_rpy_fast pf vals =
           Inr [RFloat (roll_float_spec qc), RFloat (Fin 90), RFloat (yaw_float_spec qc),
                RQuat qc] \<and>
         get_rpy_dash pf vals =
           Inr [RFloat (roll_float_spec qc), RFloat (Fin 90), RFloat (yaw_float_spec qc),
                RQuat qc]) \<and>
      (flt (pitch_arg qc) (Fin (- 1)) \<longrightarrow>
         get_rpy_fast pf vals =
           Inr [RFloat (roll_float_spec qc), RFloat (Fin (- 90)), RFloat (yaw_float_spec qc),
                RQuat qc] \<and>
         get_rpy_dash pf vals =
           Inr [RFloat (roll_float_spec qc), RFloat (Fin (- 90)), RFloat (yaw_float_spec qc),
                RQuat qc]) \<and>
      (small_quat qc \<longrightarrow>
         (fgt (pitch_arg qc) (Fin 1) \<longleftrightarrow>
            1 < 2 * (fval (qw qc) * fval (qy qc) - fval (qz qc) * fval (qx qc))) \<and>
         (flt (pitch_arg qc) (Fin (- 1)) \<longleftrightarrow>
            2 * (fval (qw qc) * fval (qy qc) - fval (qz qc) * fval (qx qc)) < - 1)))"
proof -
  have main: "(fgt (pitch_arg qc) (Fin 1) \<longrightarrow>
         get_rpy_fast pf vals =
           Inr [RFloat (roll_float_spec qc), RFloat (Fin 90), RFloat (yaw_float_spec qc),
                RQuat qc] \<and>
         get_rpy_dash pf vals =
           Inr [RFloat (roll_float_spec qc), RFloat (Fin 90), RFloat (yaw_float_spec qc),
                RQuat qc]) \<and>
      (flt (pitch_arg qc) (Fin (- 1)) \<longrightarrow>
         get_rpy_fast pf vals =
           Inr [RFloat (roll_float_spec qc), RFloat (Fin (- 90)), RFloat (yaw_float_spec qc),
                RQuat qc] \<and>
         get_rpy_dash pf vals =
           Inr [RFloat (roll_float_spec qc), RFloat (Fin (- 90)), RFloat (yaw_float_spec qc),
                RQuat qc])"
    if i: "py_iter vals = Inr (a # b # c # d # rest)"
      and f: "py_float pf a = Inr x" "py_float pf b = Inr y"
        "py_float pf c = Inr z" "py_float pf d = Inr w"
      and q: "q_corrected_spec (x, y, z, w) = qc"
  proof -
    note g = get_rpy_items(1,2)[OF i f]
    show ?thesis
      using g decoders_pitch_hi[of "(x, y, z, w)"] decoders_pitch_lo[of "(x, y, z, w)"] q
      by simp
  qed
  have real: "(fgt (pitch_arg qc) (Fin 1) \<longleftrightarrow>
            1 < 2 * (fval (qw qc) * fval (qy qc) - fval (qz qc) * fval (qx qc))) \<and>
         (flt (pitch_arg qc) (Fin (- 1)) \<longleftrightarrow>
            2 * (fval (qw qc) * fval (qy qc) - fval (qz qc) * fval (qx qc)) < - 1)"
    if sq: "small_quat qc"
    using pitch_arg_value[OF sq] fgt_finite[of "pitch_arg qc" 1]
      flt_finite[of "pitch_arg qc" "- 1"]
    by simp
  show ?thesis
    using main real get_rpy_fast_no_ValueError[of pf v] get_rpy_dash_no_ValueError[of pf v]
    by blast
qed

theorem pitch_clamped_no_domain_error_witness:
  "q_corrected_spec (Fin 0, Fin 1, Fin 0, Fin 1) = (NZero, Fin 1, Fin 0, Fin 1) \<and>
   pitch_arg (NZero, Fin 1, Fin 0, Fin 1) = Fin 2 \<and>
   fgt (pitch_arg (NZero, Fin 1, Fin 0, Fin 1)) (Fin 1) \<and>
   get_rpy_fast Map.empty (JList [JInt 0, JInt 1, JInt 0, JInt 1]) =
     Inr [RFloat (roll_float_spec (NZero, Fin 1, Fin 0, Fin 1)), RFloat (Fin 90),
          RFloat (yaw_float_spec (NZero, Fin 1, Fin 0, Fin 1)),
          RQuat (NZero, Fin 1, Fin 0, Fin 1)] \<and>
   get_rpy_dash Map.empty (JList [JInt 0, JInt 1, JInt 0, JInt 1]) =
     Inr [RFloat (roll_float_spec (NZero, Fin 1, Fin 0, Fin 1)), RFloat (Fin 90),
          RFloat (yaw_float_spec (NZero, Fin 1, Fin 0, Fin 1)),
          RQuat (NZero, Fin 1, Fin 0, Fin 1)] \<and>
   q_corrected_spec (Fin 0, Fin (- 1), Fin 0, Fin 1) = (NZero, Fin (- 1), Fin 0, Fin 1) \<and>
   flt (pitch_arg (NZero, Fin (- 1), Fin 0, Fin 1)) (Fin (- 1)) \<and>
   get_rpy_fast Map.empty (JList [JInt 0, JInt (- 1), JInt 0, JInt 1]) =
     Inr [RFloat (roll_float_spec (NZero, Fin (- 1), Fin 0, Fin 1)), RFloat (Fin (- 90)),
          RFloat (yaw_float_spec (NZero, Fin (- 1), Fin 0, Fin 1)),
          RQuat (NZero, Fin (- 1), Fin 0, Fin 1)] \<and>
   get_rpy_dash Map.empty (JList [JInt 0, JInt (- 1), JInt 0, JInt 1]) =
     Inr [RFloat (roll_float_spec (NZero, Fin (- 1), Fin 0, Fin 1)), RFloat (Fin (- 90)),
          RFloat (yaw_float_spec (NZero, Fin (- 1), Fin 0, Fin 1)),
          RQuat (NZero, Fin (- 1), Fin 0, Fin 1)] \<and>
   small_quat (NZero, Fin 1, Fin 0, Fin 1) \<and>
   1 < 2 * (fval (Fin 1) * fval (Fin 1) - fval (Fin 0) * fval NZero)"
proof -
  have i: "py_iter (JList [JInt 0, JInt 1, JInt 0, JInt 1]) =
      Inr (JInt 0 # JInt 1 # JInt 0 # JInt 1 # [])"
    by simp
  have j: "py_iter (JList [JInt 0, JInt (- 1), JInt 0, JInt 1]) =
      Inr (JInt 0 # JInt (- 1) # JInt 0 # JInt 1 # [])"
    by simp
  have q1: "q_corrected_spec (Fin 0, Fin 1, Fin 0, Fin 1) = (NZero, Fin 1, Fin 0, Fin 1)"
    by (simp add: q_corrected_spec_eq)
  have q2: "q_corrected_spec (Fin 0, Fin (- 1), Fin 0, Fin 1) = (NZero, Fin (- 1), Fin 0, Fin 1)"
    by (simp add: q_corrected_spec_eq)
  have v: "pitch_arg (NZero, Fin 1, Fin 0, Fin 1) = Fin 2"
    by (simp add: float_arith)
  have h: "fgt (pitch_arg (NZero, Fin 1, Fin 0, Fin 1)) (Fin 1)"
    by (simp add: float_arith)
  have l: "flt (pitch_arg (NZero, Fin (- 1), Fin 0, Fin 1)) (Fin (- 1))"
    by (simp add: float_arith)
  have s: "small_quat (NZero, Fin 1, Fin 0, Fin 1)"
    by (simp add: small_quat_def quat_bound_def)
  note T1 = pitch_clamped_no_domain_error[where vals = "JList [JInt 0, JInt 1, JInt 0, JInt 1]"
      and pf = Map.empty and a = "JInt 0" and b = "JInt 1" and c = "JInt 0" and d = "JInt 1"
      and rest = "[]" and x = "Fin 0" and y = "Fin 1" and z = "Fin 0" and w = "Fin 1"
      and qc = "(NZero, Fin 1, Fin 0, Fin 1)"]
  note T2 = pitch_clamped_no_domain_error[where vals = "JList [JInt 0, JInt (- 1), JInt 0, JInt 1]"
      and pf = Map.empty and a = "JInt 0" and b = "JInt (- 1)" and c = "JInt 0" and d = "JInt 1"
      and rest = "[]" and x = "Fin 0" and y = "Fin (- 1)" and z = "Fin 0" and w = "Fin 1"
      and qc = "(NZero, Fin (- 1), Fin 0, Fin 1)"]
  have f0: "py_float Map.empty (JInt 0) = Inr (Fin 0)" by (rule float_of_small_int(1))
  have f1: "py_float Map.empty (JInt 1) = Inr (Fin 1)" by (rule float_of_small_int(2))
  have fm: "py_float Map.empty (JInt (- 1)) = Inr (Fin (- 1))" by (rule float_of_small_int(3))
  have r1: "get_rpy_fast Map.empty (JList [JInt 0, JInt 1, JInt 0, JInt 1]) =
     Inr [RFloat (roll_float_spec (NZero, Fin 1, Fin 0, Fin 1)), RFloat (Fin 90),
          RFloat (yaw_float_spec (NZero, Fin 1, Fin 0, Fin 1)),
          RQuat (NZero, Fin 1, Fin 0, Fin 1)] \<and>
   get_rpy_dash Map.empty (JList [JInt 0, JInt 1, JInt 0, JInt 1]) =
     Inr [RFloat (roll_float_spec (NZero, Fin 1, Fin 0, Fin 1)), RFloat (Fin 90),
          RFloat (yaw_float_spec (NZero, Fin 1, Fin 0, Fin 1)),
          RQuat (NZero, Fin 1, Fin 0, Fin 1)]"
    using T1 i f0 f1 q1 h by blast
  have r2: "get_rpy_fast Map.empty (JList [JInt 0, JInt (- 1), JInt 0, JInt 1]) =
     Inr [RFloat (roll_float_spec (NZero, Fin (- 1), Fin 0, Fin 1)), RFloat (Fin (- 90)),
          RFloat (yaw_float_spec (NZero, Fin (- 1), Fin 0, Fin 1)),
          RQuat (NZero, Fin (- 1), Fin 0, Fin 1)] \<and>
   get_rpy_dash Map.empty (JList [JInt 0, JInt (- 1), JInt 0, JInt 1]) =
     Inr [RFloat (roll_float_spec (NZero, Fin (- 1), Fin 0, Fin 1)), RFloat (Fin (- 90)),
          RFloat (yaw_float_spec (NZero, Fin (- 1), Fin 0, Fin 1)),
          RQuat (NZero, Fin (- 1), Fin 0, Fin 1)]"
    using T2 j f0 f1 fm q2 l by blast
  have r3: "1 < 2 * (fval (Fin 1) * fval (Fin 1) - fval (Fin 0) * fval NZero)"
    by simp
  show ?thesis
    using q1 q2 v h l s r1 r2 r3 by blast
qed

subsection \<open>The two frame-corrected decoders compared\<close>

lemma overflow_general:
  assumes "0 < B" and "overflow_bound \<le> B * B"
  shows "q_corrected_spec (Fin (- B), Fin B, Fin B, Fin B) = (Fin B, Fin B, Fin B, Fin B)"
    and "pitch_arg (Fin B, Fin B, Fin B, Fin B) = NaN"
    and "roll_float_spec (Fin B, Fin B, Fin B, Fin B) = Fin 135"
    and "yaw_float_spec (Fin B, Fin B, Fin B, Fin B) = Fin 135"
proof -
  have m: "fmul (Fin B) (Fin B) = PInf"
    using assms by (simp add: fmul_def fresult_def)
  show "q_corrected_spec (Fin (- B), Fin B, Fin B, Fin B) = (Fin B, Fin B, Fin B, Fin B)"
    using assms by (simp add: q_corrected_spec_eq)
  have n: "fmul (Fin 2) (fsub PInf PInf) = NaN"
    by (simp add: fsub_def fadd_def fmul_def)
  show "pitch_arg (Fin B, Fin B, Fin B, Fin B) = NaN"
    by (simp add: pitch_arg_def m n)
  have d: "py_degrees (Fin (3 * pi / 4)) = Fin 135"
    using pi_gt_zero py_degrees_Fin[of "3 * pi / 4"] by (simp add: degrees_spec_def)
  have t: "py_atan2 (fmul (Fin 2) (fadd PInf PInf)) (fsub (Fin 1) (fmul (Fin 2) (fadd PInf PInf))) =
      Fin (3 * pi / 4)"
    by (simp add: fsub_def fadd_def fmul_def py_atan2_def)
  show "roll_float_spec (Fin B, Fin B, Fin B, Fin B) = Fin 135"
    by (simp add: roll_float_spec_def m t d)
  show "yaw_float_spec (Fin B, Fin B, Fin B, Fin B) = Fin 135"
    by (simp add: yaw_float_spec_def m t d)
qed

lemma overflow_example_bound: "overflow_bound \<le> (10::real) ^ 200 * 10 ^ 200"
  by (simp add: overflow_bound_def)

lemma overflow_example_items:
  "py_iter (JList [JFloat (Fin (- (10 ^ 200))), JFloat (Fin (10 ^ 200)),
                   JFloat (Fin (10 ^ 200)), JFloat (Fin (10 ^ 200))]) =
     Inr (JFloat (Fin (- (10 ^ 200))) # JFloat (Fin (10 ^ 200)) #
          JFloat (Fin (10 ^ 200)) # JFloat (Fin (10 ^ 200)) # [])"
  by (rule py_iter.simps)

lemma overflow_example_pos: "0 < (10::real) ^ 200"
  by (rule zero_less_power) simp

lemma nan_example:
  "q_corrected_spec (NaN, Fin 0, Fin 0, Fin 0) = (NaN, Fin 0, Fin 0, Fin 0)"
  "pitch_arg (NaN, Fin 0, Fin 0, Fin 0) = NaN"
  "roll_float_spec (NaN, Fin 0, Fin 0, Fin 0) = NaN"
  "yaw_float_spec (NaN, Fin 0, Fin 0, Fin 0) = NaN"
  by (simp_all add: q_corrected_spec_eq roll_float_spec_def yaw_float_spec_def
      pitch_arg_def fmul_def fadd_def fsub_def py_atan2_def py_degrees_def)

lemma decoders_at_NaN:
  assumes "pitch_arg (q_corrected_spec q) = NaN"
  shows "rpy_fast q =
      Inr [RFloat (roll_float_spec (q_corrected_spec q)), RFloat NaN,
           RFloat (yaw_float_spec (q_corrected_spec q)), RQuat (q_corrected_spec q)]"
    and "rpy_dash q =
      Inr [RFloat (roll_float_spec (q_corrected_spec q)), RFloat (Fin 90),
           RFloat (yaw_float_spec (q_corrected_spec q)), RQuat (q_corrected_spec q)]"
  using assms pitch_float_spec_NaN[OF assms] by (simp_all add: rpy_fast_float rpy_dash_float)

text \<open>
  Claim C9 says the decoders of \<open>Orientation_Fast.py\<close> and \<open>Sensor_Dashboard.py\<close> agree
  on every input whose first four entries coerce to floats. Where the pitch argument is
  NaN the clamps differ: the conditional expressions of \<open>Orientation_Fast.py\<close> let NaN
  through, \<open>max(-1.0, min(1.0, t2))\<close> of \<open>Sensor_Dashboard.py\<close> turns it into 1. This
  happens when a component is NaN, and also on finite inputs: on
  \<open>[-1e200, 1e200, 1e200, 1e200]\<close> the two products of the pitch argument overflow and
  their difference is NaN.
\<close>

theorem decoders_differ_at_nan:
  "get_rpy_fast Map.empty (JList [JFloat NaN, JInt 0, JInt 0, JInt 0]) =
     Inr [RFloat NaN, RFloat NaN, RFloat NaN, RQuat (NaN, Fin 0, Fin 0, Fin 0)] \<and>
   get_rpy_dash Map.empty (JList [JFloat NaN, JInt 0, JInt 0, JInt 0]) =
     Inr [RFloat NaN, RFloat (Fin 90), RFloat NaN, RQuat (NaN, Fin 0, Fin 0, Fin 0)] \<and>
   get_rpy_fast Map.empty
     (JList [JFloat (Fin (- (10 ^ 200))), JFloat (Fin (10 ^ 200)),
             JFloat (Fin (10 ^ 200)), JFloat (Fin (10 ^ 200))]) =
     Inr [RFloat (Fin 135), RFloat NaN, RFloat (Fin 135),
          RQuat (Fin (10 ^ 200), Fin (10 ^ 200), Fin (10 ^ 200), Fin (10 ^ 200))] \<and>
   get_rpy_dash Map.empty
     (JList [JFloat (Fin (- (10 ^ 200))), JFloat (Fin (10 ^ 200)),
             JFloat (Fin (10 ^ 200)), JFloat (Fin (10 ^ 200))]) =
     Inr [RFloat (Fin 135), RFloat (Fin 90), RFloat (Fin 135),
          RQuat (Fin (10 ^ 200), Fin (10 ^ 200), Fin (10 ^ 200), Fin (10 ^ 200))]"
proof -
  have i: "py_iter (JList [JFloat NaN, JInt 0, JInt 0, JInt 0]) =
      Inr (JFloat NaN # JInt 0 # JInt 0 # JInt 0 # [])"
    by simp
  note g = get_rpy_items(1,2)[OF i float_of_float float_of_small_int(1) float_of_small_int(1)
      float_of_small_int(1), of Map.empty]
  note n = decoders_at_NaN[of "(NaN, Fin 0, Fin 0, Fin 0)", unfolded nan_example, OF refl]
  note h = get_rpy_items(1,2)[OF overflow_example_items float_of_float float_of_float
      float_of_float float_of_float, of Map.empty]
  note o = overflow_general[OF overflow_example_pos overflow_example_bound]
  note m = decoders_at_NaN[of "(Fin (- (10 ^ 200)), Fin (10 ^ 200), Fin (10 ^ 200),
      Fin (10 ^ 200))", unfolded o, OF refl]
  show ?thesis
    unfolding g h n m by (intro conjI refl)
qed

text \<open>
  Claim C9, amended. On an input whose first four entries coerce to floats, the two
  decoders return the same tuple exactly when the pitch argument \<open>t = 2(wy - zx)\<close> that
  they compute from the corrected quaternion \<open>qc\<close> is not NaN; when it is NaN they
  return the same roll, yaw and quaternion, \<open>Orientation_Fast.py\<close> a NaN pitch and
  \<open>Sensor_Dashboard.py\<close> a pitch of 90 degrees. The pitch argument is a number whenever
  the components are finite and no product overflows.
\<close>

theorem decoders_agree_unless_nan:
  assumes "py_iter vals = Inr (a # b # c # d # rest)"
    and "py_float pf a = Inr x" and "py_float pf b = Inr y"
    and "py_float pf c = Inr z" and "py_float pf d = Inr w"
    and "q_corrected_spec (x, y, z, w) = qc"
  shows "(pitch_arg qc \<noteq> NaN \<longrightarrow> get_rpy_dash pf vals = get_rpy_fast pf vals) \<and>
         (pitch_arg qc = NaN \<longrightarrow>
            get_rpy_fast pf vals =
              Inr [RFloat (roll_float_spec qc), RFloat NaN, RFloat (yaw_float_spec qc),
                   RQuat qc] \<and>
            get_rpy_dash pf vals =
              Inr [RFloat (roll_float_spec qc), RFloat (Fin 90), RFloat (yaw_float_spec qc),
                   RQuat qc]) \<and>
         (small_quat qc \<longrightarrow> pitch_arg qc \<noteq> NaN)"
  using get_rpy_items(1,2)[OF assms(1-5)] rpy_dash_eq_fast[of "(x, y, z, w)"]
    decoders_at_NaN[of "(x, y, z, w)"] small_quat_not_NaN[of qc] assms(6)
  by simp

theorem decoders_agree_unless_nan_witness:
  "q_corrected_spec (Fin 1, Fin 2, Fin 3, Fin 4) = (Fin (- 1), Fin 2, Fin 3, Fin 4) \<and>
   small_quat (Fin (- 1), Fin 2, Fin 3, Fin 4) \<and>
   pitch_arg (Fin (- 1), Fin 2, Fin 3, Fin 4) \<noteq> NaN \<and>
   get_rpy_dash Map.empty (JList [JInt 1, JInt 2, JInt 3, JInt 4]) =
     get_rpy_fast Map.empty (JList [JInt 1, JInt 2, JInt 3, JInt 4]) \<and>
   q_corrected_spec (NaN, Fin 0, Fin 0, Fin 0) = (NaN, Fin 0, Fin 0, Fin 0) \<and>
   pitch_arg (NaN, Fin 0, Fin 0, Fin 0) = NaN \<and>
   get_rpy_fast Map.empty (JList [JFloat NaN, JInt 0, JInt 0, JInt 0]) =
     Inr [RFloat (roll_float_spec (NaN, Fin 0, Fin 0, Fin 0)), RFloat NaN,
          RFloat (yaw_float_spec (NaN, Fin 0, Fin 0, Fin 0)), RQuat (NaN, Fin 0, Fin 0, Fin 0)] \<and>
   get_rpy_dash Map.empty (JList [JFloat NaN, JInt 0, JInt 0, JInt 0]) =
     Inr [RFloat (roll_float_spec (NaN, Fin 0, Fin 0, Fin 0)), RFloat (Fin 90),
          RFloat (yaw_float_spec (NaN, Fin 0, Fin 0, Fin 0)), RQuat (NaN, Fin 0, Fin 0, Fin 0)]"
proof -
  have i: "py_iter (JList [JInt 1, JInt 2, JInt 3, JInt 4]) =
      Inr (JInt 1 # JInt 2 # JInt 3 # JInt 4 # [])"
    by simp
  have j: "py_iter (JList [JFloat NaN, JInt 0, JInt 0, JInt 0]) =
      Inr (JFloat NaN # JInt 0 # JInt 0 # JInt 0 # [])"
    by simp
  have q: "q_corrected_spec (Fin 1, Fin 2, Fin 3, Fin 4) = (Fin (- 1), Fin 2, Fin 3, Fin 4)"
    by (simp add: q_corrected_spec_eq)
  note T1 = decoders_agree_unless_nan[OF i float_of_small_int(2) float_of_small_int(4)
      float_of_small_int(5) float_of_small_int(6) q, of Map.empty]
  note T2 = decoders_agree_unless_nan[OF j float_of_float float_of_small_int(1)
      float_of_small_int(1) float_of_small_int(1) nan_example(1), of Map.empty]
  show ?thesis
    using q small_quat_example nan_example(1,2) T1 T2 by blast
qed

subsection \<open>The short-input sentinel in Orientation\_Fast.py\<close>

text \<open>
  Claim C1. A rotation-vector packet with fewer than four values must give the sentinel
  and leave the polling loop running. In \<open>Orientation_Fast.py\<close> the decoder returns a
  tuple of three \<open>None\<close> on that path, and \<open>SensorVisualizer.update\<close> unpacks four
  targets from it: the packet \<open>{"type": 11, "values": [1, 2, 3]}\<close> ends the loop with a
  ValueError.
\<close>

theorem fast_packet_short_values_raises:
  "fast_packet pf loads host_ts
     \<lparr>p_type = Some (JInt 11), p_name = None,
      p_values = Some (JList [JInt 1, JInt 2, JInt 3]),
      p_ts_ns = None, p_vendor = None, p_version = None, p_acc = None\<rparr> st
   = Inl ValueError"
  by (simp add: fast_packet_def fast_vals_def py_get_def py_get_default_def py_in_ints_def
      get_rpy_fast_def unpack4_def)

subsection \<open>The sensor-type gate\<close>

lemma take_prefix_iff: "take (length sub) s = sub \<longleftrightarrow> (\<exists>post. s = sub @ post)"
  by (metis append_eq_conv_conj append_take_drop_id)

lemma py_contains_iff: "py_contains sub s \<longleftrightarrow> (\<exists>pre post. s = pre @ sub @ post)"
proof (induction s)
  case Nil
  then show ?case by simp
next
  case (Cons c cs)
  have "(\<exists>pre post. c # cs = pre @ sub @ post) \<longleftrightarrow>
        (\<exists>post. c # cs = sub @ post) \<or> (\<exists>pre post. cs = pre @ sub @ post)"
  proof
    assume "\<exists>pre post. c # cs = pre @ sub @ post"
    then obtain pre post where e: "c # cs = pre @ sub @ post" by blast
    show "(\<exists>post. c # cs = sub @ post) \<or> (\<exists>pre post. cs = pre @ sub @ post)"
    proof (cases pre)
      case Nil
      then show ?thesis using e by auto
    next
      case (Cons p ps)
      then have "cs = ps @ sub @ post" using e by simp
      then show ?thesis by blast
    qed
  next
    assume "(\<exists>post. c # cs = sub @ post) \<or> (\<exists>pre post. cs = pre @ sub @ post)"
    then show "\<exists>pre post. c # cs = pre @ sub @ post"
    proof
      assume "\<exists>post. c # cs = sub @ post"
      then obtain post where "c # cs = [] @ sub @ post" by auto
      then show ?thesis by blast
    next
      assume "\<exists>pre post. cs = pre @ sub @ post"
      then obtain pre post where "c # cs = (c # pre) @ sub @ post" by auto
      then show ?thesis by blast
    qed
  qed
  then show ?case using Cons.IH take_prefix_iff[of sub "c # cs"] by simp
qed

lemma py_in_ints_11_15:
  "py_in_ints v [11, 15] \<longleftrightarrow>
     v = JInt 11 \<or> v = JInt 15 \<or> v = JFloat (Fin 11) \<or> v = JFloat (Fin 15)"
proof (cases v)
  case (JFloat f)
  then show ?thesis by (cases f) (auto simp: py_in_ints_def)
qed (auto simp: py_in_ints_def)

lemma py_in_ints_11_15_20:
  "py_in_ints v [11, 15, 20] \<longleftrightarrow>
     v = JInt 11 \<or> v = JInt 15 \<or> v = JInt 20 \<or>
     v = JFloat (Fin 11) \<or> v = JFloat (Fin 15) \<or> v = JFloat (Fin 20)"
proof (cases v)
  case (JFloat f)
  then show ?thesis by (cases f) (auto simp: py_in_ints_def)
qed (auto simp: py_in_ints_def)

lemma dash_gate_True_iff:
  "dash_gate stype name = Inr True \<longleftrightarrow>
     py_in_ints stype [11, 15, 20] \<or>
     (\<exists>s pre post. name = JStr s \<and> map lower_char s = pre @ ''rotation'' @ post)"
  by (cases name) (auto simp: dash_gate_def py_lower_def py_contains_iff)

lemma fast_packet_gate_closed:
  "\<not> py_in_ints (py_get (p_type obj)) [11, 15] \<Longrightarrow> fast_packet pf loads ts obj st = Inr st"
  by (simp add: fast_packet_def Let_def)

lemma text_packet_gate_closed:
  "\<not> py_in_ints (py_get (p_type obj)) [11, 15] \<Longrightarrow>
   text_packet pf loads ts obj tst =
     text_log ts obj (text_vals loads obj) (RNone, RNone, RNone) tst"
  by (simp add: text_packet_def Let_def)

lemma fast_packet_decoder_error:
  "py_in_ints (py_get (p_type obj)) [11, 15] \<Longrightarrow>
   get_rpy_fast pf (fast_vals loads obj) = Inl e \<Longrightarrow> fast_packet pf loads ts obj st = Inl e"
  by (simp add: fast_packet_def Let_def)

lemma text_packet_decoder_error:
  "py_in_ints (py_get (p_type obj)) [11, 15] \<Longrightarrow>
   get_rpy_text pf (text_vals loads obj) = Inl e \<Longrightarrow> text_packet pf loads ts obj tst = Inl e"
  by (simp add: text_packet_def Let_def)

lemma dash_gps_keeps:
  assumes "dash_gps marker vals st = Inr st'"
  shows "d_q_latest st' = d_q_latest st \<and> d_have_quat st' = d_have_quat st \<and>
         d_rpy st' = d_rpy st \<and> d_csv_rows st' = d_csv_rows st"
  using assms
  by (auto simp: dash_gps_def ebind_def Let_def split: sum.splits if_splits option.splits)

lemma dash_battery_keeps:
  assumes "dash_battery pint vals st = Inr st'"
  shows "d_q_latest st' = d_q_latest st \<and> d_have_quat st' = d_have_quat st \<and>
         d_rpy st' = d_rpy st \<and> d_csv_rows st' = d_csv_rows st"
  using assms
  by (auto simp: dash_battery_def ebind_def Let_def
      split: sum.splits if_splits list.splits)

lemma dash_packet_gate_closed:
  assumes "dash_gate (py_get (p_type obj)) (py_get_default (p_name obj) (JStr [])) = Inr False"
    and "dash_packet pf pint marker loads obj dst = Inr dst'"
  shows "d_q_latest dst' = d_q_latest dst \<and> d_have_quat dst' = d_have_quat dst \<and>
         d_rpy dst' = d_rpy dst \<and> d_csv_rows dst' = d_csv_rows dst"
proof (cases "py_lower (py_get_default (p_name obj) (JStr []))")
  case (Inl e)
  then show ?thesis using assms by (simp add: dash_packet_def Let_def)
next
  case (Inr l)
  then show ?thesis
    using assms dash_gps_keeps[of marker "dash_vals loads obj" dst dst']
      dash_battery_keeps[of pint "dash_vals loads obj" dst dst']
    by (auto simp: dash_packet_def Let_def split: if_splits)
qed

lemma dash_packet_decoder_error:
  "dash_gate (py_get (p_type obj)) (py_get_default (p_name obj) (JStr [])) = Inr True \<Longrightarrow>
   get_rpy_dash pf (dash_vals loads obj) = Inl e \<Longrightarrow>
   dash_packet pf pint marker loads obj dst = Inl e"
  by (simp add: dash_packet_def Let_def)

text \<open>
  Claim C7 gives one gate for every listener: type 11 or 15, or a name containing
  "rotation". \<open>Sensor_Dashboard.py\<close> also dispatches on type 20, whatever the name;
  \<open>Orientation_Fast.py\<close> looks at the type only, so a sensor named "Rotation Vector" of
  another type never reaches its decoder (here with values on which the decoder would
  raise, and the packet leaves the state as it was).
\<close>

theorem gate_differs_from_claim:
  "dash_gate (JInt 20) (JStr ''Accelerometer'') = Inr True \<and>
   \<not> gate_spec (JInt 20) (JStr ''Accelerometer'') \<and>
   gate_spec (JInt 1) (JStr ''Rotation Vector'') \<and>
   fast_packet Map.empty Map.empty ''t''
     \<lparr>p_type = Some (JInt 1), p_name = Some (JStr ''Rotation Vector''),
      p_values = Some (JList [JInt (10 ^ 400), JInt 0, JInt 0, JInt 1]),
      p_ts_ns = None, p_vendor = None, p_version = None, p_acc = None\<rparr>
     \<lparr>q_latest = RQuat (Fin 0, Fin 0, Fin 0, Fin 1), have_quat = False, angle_label = None,
      writer = False, csv_rows = []\<rparr> =
   Inr \<lparr>q_latest = RQuat (Fin 0, Fin 0, Fin 0, Fin 1), have_quat = False, angle_label = None,
      writer = False, csv_rows = []\<rparr> \<and>
   get_rpy_fast Map.empty (JList [JInt (10 ^ 400), JInt 0, JInt 0, JInt 1]) = Inl OverflowError"
  by (simp add: dash_gate_def gate_spec_def py_in_ints_def py_lower_def lower_char_def
      fast_packet_def py_get_def get_rpy_fast_def coerce_fast_def float_overflows_def
      caught_fast_def)

text \<open>
  Claim C7, amended. \<open>Orientation_Fast.py\<close> and \<open>rpy_output_text.py\<close> dispatch to the
  decoder exactly when the type equals 11 or 15 (as a number): otherwise the packet
  leaves the viewer's state unchanged, respectively is only logged with empty angles, and
  when it does an exception of the decoder is the packet's. \<open>Sensor_Dashboard.py\<close>
  dispatches exactly when the type equals 11, 15 or 20, or the name is a string whose
  lower-case form contains "rotation"; a packet that is not dispatched and is processed
  leaves the orientation (quaternion, flag and angles) as it was.
\<close>

theorem sensor_gates:
  "(py_in_ints v [11, 15] \<longleftrightarrow>
      v = JInt 11 \<or> v = JInt 15 \<or> v = JFloat (Fin 11) \<or> v = JFloat (Fin 15)) \<and>
   (\<not> py_in_ints (py_get (p_type obj)) [11, 15] \<longrightarrow>
      fast_packet pf loads ts obj st = Inr st \<and>
      text_packet pf loads ts obj tst =
        text_log ts obj (text_vals loads obj) (RNone, RNone, RNone) tst) \<and>
   (py_in_ints (py_get (p_type obj)) [11, 15] \<longrightarrow>
      (\<forall>e. get_rpy_fast pf (fast_vals loads obj) = Inl e \<longrightarrow>
           fast_packet pf loads ts obj st = Inl e) \<and>
      (\<forall>e. get_rpy_text pf (text_vals loads obj) = Inl e \<longrightarrow>
           text_packet pf loads ts obj tst = Inl e)) \<and>
   (dash_gate stype name = Inr True \<longleftrightarrow>
      py_in_ints stype [11, 15, 20] \<or>
      (\<exists>s pre post. name = JStr s \<and> map lower_char s = pre @ ''rotation'' @ post)) \<and>
   (py_in_ints stype [11, 15, 20] \<longleftrightarrow>
      stype = JInt 11 \<or> stype = JInt 15 \<or> stype = JInt 20 \<or>
      stype = JFloat (Fin 11) \<or> stype = JFloat (Fin 15) \<or> stype = JFloat (Fin 20)) \<and>
   (dash_gate (py_get (p_type obj)) (py_get_default (p_name obj) (JStr [])) = Inr False \<and>
    dash_packet pf pint marker loads obj dst = Inr dst' \<longrightarrow>
      d_q_latest dst' = d_q_latest dst \<and> d_have_quat dst' = d_have_quat dst \<and>
      d_rpy dst' = d_rpy dst) \<and>
   (dash_gate (py_get (p_type obj)) (py_get_default (p_name obj) (JStr [])) = Inr True \<longrightarrow>
      (\<forall>e. get_rpy_dash pf (dash_vals loads obj) = Inl e \<longrightarrow>
           dash_packet pf pint marker loads obj dst = Inl e))"
  using py_in_ints_11_15[of v] py_in_ints_11_15_20[of stype] dash_gate_True_iff[of stype name]
    fast_packet_gate_closed[of obj pf loads ts st] text_packet_gate_closed[of obj pf loads ts tst]
    fast_packet_decoder_error[of obj pf loads _ ts st]
    text_packet_decoder_error[of obj pf loads _ ts tst]
    dash_packet_gate_closed[of obj pf pint marker loads dst dst']
    dash_packet_decoder_error[where obj = obj and pf = pf and pint = pint and marker = marker
      and loads = loads and dst = dst]
  by blast

theorem sensor_gates_witness:
  "\<not> py_in_ints (py_get (p_type
       \<lparr>p_type = Some (JInt 1), p_name = Some (JStr ''Rotation Vector''),
        p_values = Some (JInt 5), p_ts_ns = None, p_vendor = None, p_version = None,
        p_acc = None\<rparr>)) [11, 15] \<and>
   fast_packet Map.empty Map.empty ''t''
     \<lparr>p_type = Some (JInt 1), p_name = Some (JStr ''Rotation Vector''),
      p_values = Some (JInt 5), p_ts_ns = None, p_vendor = None, p_version = None,
      p_acc = None\<rparr>
     \<lparr>q_latest = RNone, have_quat = False, angle_label = None, writer = False,
      csv_rows = []\<rparr> =
   Inr \<lparr>q_latest = RNone, have_quat = False, angle_label = None, writer = False,
      csv_rows = []\<rparr> \<and>
   dash_gate (JInt 1) (JStr ''Rotation Vector'') = Inr True \<and>
   dash_packet Map.empty Map.empty (\<lambda>lat lon pts. None) Map.empty
     \<lparr>p_type = Some (JInt 1), p_name = Some (JStr ''Rotation Vector''),
      p_values = Some (JInt 5), p_ts_ns = None, p_vendor = None, p_version = None,
      p_acc = None\<rparr> (dash_init False) = Inl TypeError \<and>
   py_in_ints (JInt 11) [11, 15] \<and>
   fast_packet Map.empty Map.empty ''t''
     \<lparr>p_type = Some (JInt 11), p_name = None,
      p_values = Some (JList [JInt (10 ^ 400), JInt 0, JInt 0, JInt 1]),
      p_ts_ns = None, p_vendor = None, p_version = None, p_acc = None\<rparr>
     \<lparr>q_latest = RNone, have_quat = False, angle_label = None, writer = False,
      csv_rows = []\<rparr> = Inl OverflowError \<and>
   dash_gate (JInt 1) (JStr ''gps'') = Inr False \<and>
   dash_packet Map.empty Map.empty (\<lambda>lat lon pts. None) Map.empty
     \<lparr>p_type = Some (JInt 1), p_name = Some (JStr ''gps''),
      p_values = Some (JList [JInt 48, JInt 2]), p_ts_ns = None, p_vendor = None,
      p_version = None, p_acc = None\<rparr> (dash_init False) =
     Inr ((dash_init False)
        \<lparr>d_lat := JInt 48, d_lon := JInt 2, d_gps_points := [(JInt 48, JInt 2)]\<rparr>) \<and>
   d_q_latest ((dash_init False)
        \<lparr>d_lat := JInt 48, d_lon := JInt 2, d_gps_points := [(JInt 48, JInt 2)]\<rparr>) =
     d_q_latest (dash_init False) \<and>
   d_have_quat ((dash_init False)
        \<lparr>d_lat := JInt 48, d_lon := JInt 2, d_gps_points := [(JInt 48, JInt 2)]\<rparr>) =
     d_have_quat (dash_init False) \<and>
   d_rpy ((dash_init False)
        \<lparr>d_lat := JInt 48, d_lon := JInt 2, d_gps_points := [(JInt 48, JInt 2)]\<rparr>) =
     d_rpy (dash_init False)"
proof -
  let ?a = "\<lparr>p_type = Some (JInt 1), p_name = Some (JStr ''Rotation Vector''),
      p_values = Some (JInt 5), p_ts_ns = None, p_vendor = None, p_version = None,
      p_acc = None\<rparr>"
  let ?b = "\<lparr>p_type = Some (JInt 11), p_name = None,
      p_values = Some (JList [JInt (10 ^ 400), JInt 0, JInt 0, JInt 1]),
      p_ts_ns = None, p_vendor = None, p_version = None, p_acc = None\<rparr>"
  let ?c = "\<lparr>p_type = Some (JInt 1), p_name = Some (JStr ''gps''),
      p_values = Some (JList [JInt 48, JInt 2]), p_ts_ns = None, p_vendor = None,
      p_version = None, p_acc = None\<rparr>"
  let ?m = "\<lambda>(lat::pyval) (lon::pyval) (pts::(pyval \<times> pyval) list). None :: error option"
  let ?d = "(dash_init False)
        \<lparr>d_lat := JInt 48, d_lon := JInt 2, d_gps_points := [(JInt 48, JInt 2)]\<rparr>"
  let ?st = "\<lparr>q_latest = RNone, have_quat = False, angle_label = None, writer = False,
      csv_rows = []\<rparr>"
  have a1: "\<not> py_in_ints (py_get (p_type ?a)) [11, 15]"
    by (simp add: py_get_def py_in_ints_def)
  have a2: "dash_gate (py_get (p_type ?a)) (py_get_default (p_name ?a) (JStr [])) = Inr True"
    by (simp add: py_get_def py_get_default_def dash_gate_def py_in_ints_def py_lower_def
        lower_char_def)
  have a3: "get_rpy_dash Map.empty (dash_vals Map.empty ?a) = Inl TypeError"
    by (simp add: dash_vals_def py_get_default_def get_rpy_dash_def)
  have b1: "py_in_ints (py_get (p_type ?b)) [11, 15]"
    by (simp add: py_get_def py_in_ints_def)
  have b2: "get_rpy_fast Map.empty (fast_vals Map.empty ?b) = Inl OverflowError"
    by (simp add: fast_vals_def py_get_default_def get_rpy_fast_def coerce_fast_def
        float_overflows_def caught_fast_def)
  have c1: "dash_gate (py_get (p_type ?c)) (py_get_default (p_name ?c) (JStr [])) = Inr False"
    by (simp add: py_get_def py_get_default_def dash_gate_def py_in_ints_def py_lower_def
        lower_char_def)
  have ra: "fast_packet Map.empty Map.empty ''t'' ?a ?st = Inr ?st"
    using a1 sensor_gates[where obj = ?a and pf = Map.empty and loads = Map.empty
        and ts = "''t''" and st = ?st]
    by blast
  have rd: "dash_packet Map.empty Map.empty ?m Map.empty ?a (dash_init False) = Inl TypeError"
    using a2 a3 sensor_gates[where obj = ?a and pf = Map.empty and loads = Map.empty
        and pint = Map.empty and marker = ?m and dst = "dash_init False"]
    by blast
  have rb: "fast_packet Map.empty Map.empty ''t'' ?b ?st = Inl OverflowError"
    using b1 b2 sensor_gates[where obj = ?b and pf = Map.empty and loads = Map.empty
        and ts = "''t''" and st = ?st]
    by blast
  have c2: "dash_packet Map.empty Map.empty ?m Map.empty ?c (dash_init False) = Inr ?d"
    by (simp add: dash_packet_def dash_gate_def dash_vals_def dash_gps_def py_get_def
        py_get_default_def py_in_ints_def py_lower_def lower_char_def
        deque_append_def GPS_HISTORY_def dash_init_def)
  have rc: "d_q_latest ?d = d_q_latest (dash_init False) \<and>
      d_have_quat ?d = d_have_quat (dash_init False) \<and> d_rpy ?d = d_rpy (dash_init False)"
    using c1 c2 sensor_gates[where obj = ?c and pf = Map.empty and loads = Map.empty
        and pint = Map.empty and marker = ?m and dst = "dash_init False" and dst' = ?d]
    by blast
  show ?thesis
    using a1 a2 b1 c1 ra rd rb c2 rc by (simp add: py_get_def py_get_default_def)
qed

subsection \<open>The CSV log\<close>












lemma identity_decode:
  "get_rpy_fast pf (JList [JInt 0, JInt 0, JInt 0, JInt 1]) =
     Inr [RFloat (Fin 0), RFloat (Fin 0), RFloat (Fin 0), RQuat (NZero, Fin 0, Fin 0, Fin 1)]"
  "get_rpy_dash pf (JList [JInt 0, JInt 0, JInt 0, JInt 1]) =
     Inr [RFloat (Fin 0), RFloat (Fin 0), RFloat (Fin 0), RQuat (NZero, Fin 0, Fin 0, Fin 1)]"
  "get_rpy_text pf (JList [JInt 0, JInt 0, JInt 0, JInt 1]) =
     Inr [RFloat (Fin 0), RFloat (Fin 0), RFloat (Fin 0)]"
proof -
  have i: "py_iter (JList [JInt 0, JInt 0, JInt 0, JInt 1]) =
      Inr (JInt 0 # JInt 0 # JInt 0 # JInt 1 # [])"
    by simp
  note g = get_rpy_items[OF i float_of_small_int(1) float_of_small_int(1)
      float_of_small_int(1) float_of_small_int(2), of pf]
  have q: "q_corrected_spec (Fin 0, Fin 0, Fin 0, Fin 1) = (NZero, Fin 0, Fin 0, Fin 1)"
    by (simp add: q_corrected_spec_eq)
  have a: "roll_float_spec (NZero, Fin 0, Fin 0, Fin 1) = Fin 0"
    "pitch_float_spec (NZero, Fin 0, Fin 0, Fin 1) = Inr (Fin 0)"
    "yaw_float_spec (NZero, Fin 0, Fin 0, Fin 1) = Fin 0"
    "pitch_arg (NZero, Fin 0, Fin 0, Fin 1) = Fin 0"
    "roll_float_spec (Fin 0, Fin 0, Fin 0, Fin 1) = Fin 0"
    "pitch_float_spec (Fin 0, Fin 0, Fin 0, Fin 1) = Inr (Fin 0)"
    "yaw_float_spec (Fin 0, Fin 0, Fin 0, Fin 1) = Fin 0"
    by (simp_all add: roll_float_spec_def pitch_float_spec_def yaw_float_spec_def float_arith)
  show "get_rpy_fast pf (JList [JInt 0, JInt 0, JInt 0, JInt 1]) =
     Inr [RFloat (Fin 0), RFloat (Fin 0), RFloat (Fin 0), RQuat (NZero, Fin 0, Fin 0, Fin 1)]"
    unfolding g by (simp add: rpy_fast_float q a)
  show "get_rpy_dash pf (JList [JInt 0, JInt 0, JInt 0, JInt 1]) =
     Inr [RFloat (Fin 0), RFloat (Fin 0), RFloat (Fin 0), RQuat (NZero, Fin 0, Fin 0, Fin 1)]"
    unfolding g by (simp add: rpy_dash_float q a)
  show "get_rpy_text pf (JList [JInt 0, JInt 0, JInt 0, JInt 1]) =
     Inr [RFloat (Fin 0), RFloat (Fin 0), RFloat (Fin 0)]"
    unfolding g by (simp add: rpy_text_float a)
qed


lemma fast_identity_packet:
  "fast_packet pf loads ''t''
     \<lparr>p_type = Some (JInt 11), p_name = None,
        p_values = Some (JList [JInt 0, JInt 0, JInt 0, JInt 1]),
        p_ts_ns = None, p_vendor = None, p_version = None, p_acc = None\<rparr>
     \<lparr>q_latest = RQuat (Fin 0, Fin 0, Fin 0, Fin 1), have_quat = False,
        angle_label = None, writer = True, csv_rows = []\<rparr> =
   Inr \<lparr>q_latest = RQuat (NZero, Fin 0, Fin 0, Fin 1), have_quat = True,
        angle_label = Some (RFloat (Fin 0), RFloat (Fin 0), RFloat (Fin 0)), writer = True,
        csv_rows =
          [[CVal (JStr ''t''), CVal JNull, CVal (JInt 11), CVal (JStr ''Unknown''),
            CFmt2 (RFloat (Fin 0)), CFmt2 (RFloat (Fin 0)), CFmt2 (RFloat (Fin 0)),
            CJoin [JInt 0, JInt 0, JInt 0, JInt 1]]]\<rparr>"
  by (simp add: fast_packet_def fast_vals_def py_get_def py_get_default_def py_in_ints_def
      identity_decode unpack4_def)




subsection \<open>A \<open>values\<close> field that is neither a string nor a list\<close>

lemma unparsable_string_values:
  assumes "p_values obj = Some (JStr s)" and "loads s = None"
  shows "fast_vals loads obj = JList [JStr s]" "dash_vals loads obj = JList [JStr s]"
    "text_vals loads obj = JList [JStr s]"
    "get_rpy_fast pf (JList [JStr s]) = Inr [RNone, RNone, RNone]"
    "get_rpy_dash pf (JList [JStr s]) = Inr [RNone, RNone, RNone, RNone]"
    "get_rpy_text pf (JList [JStr s]) = Inr [RNone, RNone, RNone]"
  using assms
  by (simp_all add: fast_vals_def dash_vals_def text_vals_def py_get_default_def
      get_rpy_fast_def get_rpy_dash_def get_rpy_text_def)

text \<open>
  Claim C10. An unparsable string becomes a one-element list in the three listeners and
  gives the sentinel (lemma \<open>unparsable_string_values\<close>). A field that is neither a string
  nor a list becomes the empty list in \<open>Orientation_Fast.py\<close> and \<open>rpy_output_text.py\<close>,
  but \<open>Sensor_Dashboard.py\<close> has no such branch: the packet
  \<open>{"type": 11, "values": 5}\<close> reaches its decoder as the number 5, and \<open>len(5)\<close> raises a
  TypeError that leaves \<open>_update\<close>.
\<close>

theorem dashboard_values_not_normalised:
  "dash_vals loads
     \<lparr>p_type = Some (JInt 11), p_name = None, p_values = Some (JInt 5),
      p_ts_ns = None, p_vendor = None, p_version = None, p_acc = None\<rparr> = JInt 5 \<and>
   fast_vals loads
     \<lparr>p_type = Some (JInt 11), p_name = None, p_values = Some (JInt 5),
      p_ts_ns = None, p_vendor = None, p_version = None, p_acc = None\<rparr> = JList [] \<and>
   text_vals loads
     \<lparr>p_type = Some (JInt 11), p_name = None, p_values = Some (JInt 5),
      p_ts_ns = None, p_vendor = None, p_version = None, p_acc = None\<rparr> = JList [] \<and>
   dash_packet pf pint marker loads
     \<lparr>p_type = Some (JInt 11), p_name = None, p_values = Some (JInt 5),
      p_ts_ns = None, p_vendor = None, p_version = None, p_acc = None\<rparr> dst = Inl TypeError"
  by (simp add: dash_packet_def dash_vals_def fast_vals_def text_vals_def dash_gate_def
      py_get_def py_get_default_def py_in_ints_def get_rpy_dash_def)

end
